theory Spec2Isabelle
  imports Complex_Main "HOL-Library.Sublist" "HOL-Library.AList"
begin

section \<open>Python values, exceptions and results\<close>

text \<open>
  The development embeds the download-orchestration pipeline of the bot
  (\<^verbatim>\<open>plugins/helper/upload.py\<close>, \<^verbatim>\<open>plugins/commands.py\<close>, \<^verbatim>\<open>app.py\<close>).
  Conventions of the embedding:
  \<^item> Python \<^verbatim>\<open>str\<close> is \<^typ>\<open>string\<close>; only ASCII case mapping is modelled, and the two
    block characters of the progress bar are written as their UTF-8 bytes.
  \<^item> Python \<^verbatim>\<open>int\<close> is \<^typ>\<open>int\<close>; Python \<^verbatim>\<open>float\<close> is idealised as \<^typ>\<open>rat\<close>: exact
    arithmetic, no rounding error, no signed zero, no infinities or NaN, and no
    overflow. The model therefore describes the code on numbers within the range of a
    float and on strings that fit in memory: the \<^verbatim>\<open>OverflowError\<close> of a true division of
    integers of 310 digits and more, and the failure to build a string of astronomic
    length, are outside it.
  \<^item> An exception is a value of \<open>exn\<close>; a call that may raise returns \<open>exn + 'a\<close>, and a
    coroutine that may also never return yields an \<open>outcome\<close>.
  \<^item> Module-level dictionaries are association lists inside the record \<open>system\<close>; every
    assignment to a dictionary replaces the entry of that key.
  \<^item> Collaborators outside the repository (the extraction engine, the download daemon,
    the remux subprocess, HTTP servers, the standard library's URL parser and MIME
    tables) are fields of the record \<open>env\<close>.
\<close>

datatype exn =
    ValueError string
  | RuntimeError string
  | FileNotFoundError string
  | TypeError string
  | ZeroDivisionError string
  | OtherError string
  | CancelledError string

text \<open>\<^verbatim>\<open>str(e)\<close> of an exception built from a single message.\<close>

fun exn_str :: "exn \<Rightarrow> string" where
  "exn_str (ValueError m) = m"
| "exn_str (RuntimeError m) = m"
| "exn_str (FileNotFoundError m) = m"
| "exn_str (TypeError m) = m"
| "exn_str (ZeroDivisionError m) = m"
| "exn_str (OtherError m) = m"
| "exn_str (CancelledError m) = m"

text \<open>
  \<^verbatim>\<open>asyncio.CancelledError\<close> derives from \<^verbatim>\<open>BaseException\<close> (the sources use Python 3.10
  syntax), so a clause \<^verbatim>\<open>except Exception\<close> does not catch it.
\<close>

fun is_Exception :: "exn \<Rightarrow> bool" where
  "is_Exception (CancelledError m) = False"
| "is_Exception e = True"

datatype 'a outcome = Return 'a | Raise exn | Hang

section \<open>Strings and paths\<close>

definition lower_char :: "char \<Rightarrow> char" where
  "lower_char c =
     (let n = (of_char c :: nat) in if 65 \<le> n \<and> n \<le> 90 then char_of (n + 32) else c)"

definition lower :: "string \<Rightarrow> string" where
  "lower s = map lower_char s"

text \<open>\<^verbatim>\<open>s.lstrip(chars)\<close> removes leading characters that occur in \<open>chars\<close>.\<close>

definition lstrip :: "string \<Rightarrow> string \<Rightarrow> string" where
  "lstrip s chars = dropWhile (\<lambda>c. c \<in> set chars) s"

definition rstrip :: "string \<Rightarrow> string \<Rightarrow> string" where
  "rstrip s chars = rev (dropWhile (\<lambda>c. c \<in> set chars) (rev s))"

definition endswith :: "string \<Rightarrow> string \<Rightarrow> bool" where
  "endswith s t = suffix t s"

definition startswith :: "string \<Rightarrow> string \<Rightarrow> bool" where
  "startswith s t = prefix t s"

text \<open>\<^verbatim>\<open>t in s\<close> on strings.\<close>

definition str_contains :: "string \<Rightarrow> string \<Rightarrow> bool" where
  "str_contains s t = sublist t s"

text \<open>\<^verbatim>\<open>p.rfind(c)\<close>: the index of the last occurrence, or \<open>-1\<close>.\<close>

fun rfind_from :: "char \<Rightarrow> string \<Rightarrow> int \<Rightarrow> int \<Rightarrow> int" where
  "rfind_from c [] i r = r"
| "rfind_from c (x # xs) i r = rfind_from c xs (i + 1) (if x = c then i else r)"

definition rfind :: "string \<Rightarrow> char \<Rightarrow> int" where
  "rfind p c = rfind_from c p 0 (- 1)"

text \<open>\<^verbatim>\<open>p[i:j]\<close> for indices that are not negative.\<close>

definition slice :: "string \<Rightarrow> int \<Rightarrow> int \<Rightarrow> string" where
  "slice p i j = take (nat j - nat i) (drop (nat i) p)"

text \<open>
  \<^verbatim>\<open>os.path.splitext\<close> (POSIX): the extension starts at the last dot of the last path
  component, unless only dots precede it there. The scan is the library's loop
  \<^verbatim>\<open>while filenameIndex < dotIndex\<close>, which returns the split at the first character that
  is not a dot.
\<close>

function leading_dots_scan :: "string \<Rightarrow> int \<Rightarrow> int \<Rightarrow> bool" where
  "leading_dots_scan p filenameIndex dotIndex =
     (if filenameIndex < dotIndex
      then (if slice p filenameIndex (filenameIndex + 1) \<noteq> ''.'' then True
            else leading_dots_scan p (filenameIndex + 1) dotIndex)
      else False)"
  by pat_completeness auto
termination
  by (relation "measure (\<lambda>(p, i, j). nat (j - i))") auto

definition splitext :: "string \<Rightarrow> string \<times> string" where
  "splitext p =
     (let sepIndex = rfind p CHR ''/'';
          dotIndex = rfind p CHR ''.''
      in if dotIndex > sepIndex \<and> leading_dots_scan p (sepIndex + 1) dotIndex
         then (take (nat dotIndex) p, drop (nat dotIndex) p)
         else (p, []))"

text \<open>\<^verbatim>\<open>os.path.join(a, b)\<close> for two components (POSIX).\<close>

definition path_join :: "string \<Rightarrow> string \<Rightarrow> string" where
  "path_join a b =
     (if startswith b ''/'' then b
      else if a = [] \<or> endswith a ''/'' then a @ b
      else a @ ''/'' @ b)"

text \<open>\<^verbatim>\<open>d.get(k, dflt)\<close> on a dictionary kept as an association list.\<close>

definition dict_get :: "('k \<times> 'v) list \<Rightarrow> 'k \<Rightarrow> 'v \<Rightarrow> 'v" where
  "dict_get d k dflt = (case map_of d k of None \<Rightarrow> dflt | Some v \<Rightarrow> v)"

section \<open>Streaming detection and the extension remap\<close>

definition STREAMING_EXTENSIONS :: "(string \<times> string) list" where
  "STREAMING_EXTENSIONS =
     [(''.m3u8'', ''.mp4''), (''.m3u'', ''.mp4''), (''.mpd'', ''.mp4''), (''.ts'', ''.mp4'')]"

definition HLS_MIME_TYPES :: "string list" where
  "HLS_MIME_TYPES =
     [''application/vnd.apple.mpegurl'', ''application/x-mpegurl'', ''application/dash+xml'',
      ''audio/mpegurl'', ''audio/x-mpegurl'', ''video/mp2t'']"

definition smart_output_name :: "string \<Rightarrow> string" where
  "smart_output_name filename =
     (case splitext filename of (stem, ext) \<Rightarrow>
        stem @ dict_get STREAMING_EXTENSIONS (lower ext) ext)"

section \<open>Numbers and their text\<close>

text \<open>\<^verbatim>\<open>int(x)\<close> of a number truncates towards zero.\<close>

definition py_int :: "rat \<Rightarrow> int" where
  "py_int x = (if 0 \<le> x then \<lfloor>x\<rfloor> else \<lceil>x\<rceil>)"

text \<open>Rounding to the nearest integer, ties to the even one, as \<^verbatim>\<open>round\<close> and \<^verbatim>\<open>format\<close> do.\<close>

definition round_half_even :: "rat \<Rightarrow> int" where
  "round_half_even x =
     (let f = \<lfloor>x\<rfloor>; d = x - of_int f
      in if d < 1 / 2 then f else if 1 / 2 < d then f + 1 else if even f then f else f + 1)"

text \<open>\<^verbatim>\<open>round(x, 1)\<close>.\<close>

definition round1 :: "rat \<Rightarrow> rat" where
  "round1 x = of_int (round_half_even (x * 10)) / 10"

definition digit_char :: "nat \<Rightarrow> char" where
  "digit_char d = ''0123456789'' ! d"

function str_of_nat :: "nat \<Rightarrow> string" where
  "str_of_nat n =
     (if n < 10 then [digit_char n] else str_of_nat (n div 10) @ [digit_char (n mod 10)])"
  by pat_completeness auto
termination
  by (relation "measure id") auto

definition str_of_int :: "int \<Rightarrow> string" where
  "str_of_int i = (if i < 0 then ''-'' @ str_of_nat (nat (- i)) else str_of_nat (nat i))"

text \<open>\<^verbatim>\<open>f"{x:.df}"\<close> for \<open>d\<close> of at least one digit after the point.\<close>

definition fmt_fixed :: "nat \<Rightarrow> rat \<Rightarrow> string" where
  "fmt_fixed d x =
     (let n = nat (round_half_even (\<bar>x\<bar> * 10 ^ d));
          frac = str_of_nat (n mod 10 ^ d)
      in (if x < 0 then ''-'' else []) @ str_of_nat (n div 10 ^ d) @ ''.'' @
         replicate (d - length frac) CHR ''0'' @ frac)"

text \<open>\<^verbatim>\<open>a / b\<close> raises on a zero divisor.\<close>

definition truediv :: "rat \<Rightarrow> rat \<Rightarrow> exn + rat" where
  "truediv a b = (if b = 0 then Inl (ZeroDivisionError ''division by zero'') else Inr (a / b))"

text \<open>\<^verbatim>\<open>size < n\<close> raises when \<open>size\<close> is \<^verbatim>\<open>None\<close>.\<close>

definition py_lt :: "rat option \<Rightarrow> rat \<Rightarrow> exn + bool" where
  "py_lt a b =
     (case a of
        None \<Rightarrow> Inl (TypeError ''< not supported between NoneType and int'')
      | Some x \<Rightarrow> Inr (x < b))"

text \<open>\<^verbatim>\<open>s * n\<close> on a string: empty when \<open>n\<close> is not positive.\<close>

definition str_repeat :: "string \<Rightarrow> int \<Rightarrow> string" where
  "str_repeat s n = concat (replicate (nat n) s)"

section \<open>The progress-formatting helpers\<close>

text \<open>
  The loop of \<^verbatim>\<open>humanbytes\<close> over the units, with the division by 1024 of each round.
  The division is exact here; in the interpreter the first one raises \<^verbatim>\<open>OverflowError\<close>
  for an integer too large for a float.
\<close>

fun humanbytes_units :: "rat \<Rightarrow> string list \<Rightarrow> string" where
  "humanbytes_units sz [] = fmt_fixed 2 sz @ '' PB''"
| "humanbytes_units sz (unit # units) =
     (if sz < 1024
      then (if unit \<in> set [''B'', ''KB''] then str_of_int (py_int sz) @ '' '' @ unit
            else fmt_fixed 2 sz @ '' '' @ unit)
      else humanbytes_units (sz / 1024) units)"

definition humanbytes :: "rat option \<Rightarrow> exn + string" where
  "humanbytes sz =
     (case (if sz = None then Inr True else py_lt sz 0) of
        Inl e \<Rightarrow> Inl e
      | Inr True \<Rightarrow> Inr ''Unknown''
      | Inr False \<Rightarrow>
          (case sz of
             None \<Rightarrow> Inr ''0 B''
           | Some x \<Rightarrow>
               if x = 0 then Inr ''0 B''
               else Inr (humanbytes_units x [''B'', ''KB'', ''MB'', ''GB'', ''TB''])))"

definition time_formatter :: "rat \<Rightarrow> string" where
  "time_formatter seconds =
     (let whole = py_int seconds;
          minutes0 = whole div 60; sec = whole mod 60;
          hours = minutes0 div 60; minutes = minutes0 mod 60
      in if hours \<noteq> 0
         then str_of_int hours @ ''h '' @ str_of_int minutes @ ''m '' @ str_of_int sec @ ''s''
         else if minutes \<noteq> 0 then str_of_int minutes @ ''m '' @ str_of_int sec @ ''s''
         else str_of_int sec @ ''s'')"

text \<open>
  The two block characters, as UTF-8 bytes (U+2588 and U+2591). In \<open>progress_bar\<close> the
  true divisions are exact and the repetitions unbounded; the interpreter raises
  \<^verbatim>\<open>OverflowError\<close> or \<^verbatim>\<open>MemoryError\<close> when the quotient leaves the range of a float or
  the bar cannot be allocated.
\<close>

definition FULL_BLOCK :: string where
  "FULL_BLOCK = [CHR 0xE2, CHR 0x96, CHR 0x88]"

definition LIGHT_SHADE :: string where
  "LIGHT_SHADE = [CHR 0xE2, CHR 0x96, CHR 0x91]"

definition progress_bar :: "int \<Rightarrow> int \<Rightarrow> int \<Rightarrow> exn + string" where
  "progress_bar current tot len =
     (case (if tot \<noteq> 0
            then map_sum id py_int (truediv (of_int (len * current)) (of_int tot))
            else Inr 0) of
        Inl e \<Rightarrow> Inl e
      | Inr filled \<Rightarrow>
          (let bar = str_repeat FULL_BLOCK filled @ str_repeat LIGHT_SHADE (len - filled)
           in case (if tot \<noteq> 0
                    then map_sum id (\<lambda>q. q * 100) (truediv (of_int current) (of_int tot))
                    else Inr 0) of
                Inl e \<Rightarrow> Inl e
              | Inr percent \<Rightarrow> Inr (''['' @ bar @ ''] '' @ fmt_fixed 1 percent @ ''%'')))"

section \<open>Shared state\<close>

text \<open>
  A progress snapshot is the dictionary stored under a requester id in
  \<^verbatim>\<open>WEBAPP_PROGRESS\<close>; its values are strings and numbers.
\<close>

datatype pyval = PStr string | PNum rat

type_synonym snapshot = "(string \<times> pyval) list"

text \<open>
  An entry of \<^verbatim>\<open>ACTIVE_TASKS\<close> is the pair \<^verbatim>\<open>(task, cancel_ref)\<close>: the identity of an
  asyncio task and the address of the one-element list that holds the cancel flag.
\<close>

record task =
  task_user :: int
  task_done :: bool
  task_cancel_requested :: bool

text \<open>The functions of \<^verbatim>\<open>upload.py\<close> that a request enters, in order (a trace).\<close>

datatype call =
    EnterYtdlp string
  | EnterCobalt string
  | HeadProbe string
  | EnterHls string string
  | EnterAria2c string string

record system =
  is_ready :: bool
  ACTIVE_TASKS :: "(int \<times> nat \<times> nat) list"
  tasks :: "(nat \<times> task) list"
  cancel_refs :: "(nat \<times> bool) list"
  WEBAPP_PROGRESS :: "(int \<times> snapshot) list"
  progress_log :: "(int \<times> snapshot) list"
  files :: "(string \<times> int) list"
  calls :: "call list"

text \<open>
  \<^verbatim>\<open>WEBAPP_PROGRESS[user_id] = {...}\<close>: the entry is replaced as a whole. The field
  \<open>progress_log\<close> keeps every assignment in order; the program has no such list, it
  serves to state properties of successive updates.
\<close>

definition write_progress :: "int \<Rightarrow> snapshot \<Rightarrow> system \<Rightarrow> system" where
  "write_progress user_id snap s =
     s\<lparr>WEBAPP_PROGRESS := AList.update user_id snap (WEBAPP_PROGRESS s),
       progress_log := progress_log s @ [(user_id, snap)]\<rparr>"

definition log_call :: "call \<Rightarrow> system \<Rightarrow> system" where
  "log_call c s = s\<lparr>calls := calls s @ [c]\<rparr>"

text \<open>The file system: a path has a size in bytes when the file exists.\<close>

definition path_exists :: "system \<Rightarrow> string \<Rightarrow> bool" where
  "path_exists s p = (map_of (files s) p \<noteq> None)"

definition getsize :: "system \<Rightarrow> string \<Rightarrow> exn + int" where
  "getsize s p =
     (case map_of (files s) p of
        None \<Rightarrow> Inl (FileNotFoundError (''No such file or directory: '' @ p))
      | Some n \<Rightarrow> Inr n)"

text \<open>\<^verbatim>\<open>os.remove\<close> inside \<^verbatim>\<open>try ... except: pass\<close>: a missing file changes nothing.\<close>

definition remove_quietly :: "string \<Rightarrow> system \<Rightarrow> system" where
  "remove_quietly p s = s\<lparr>files := AList.delete p (files s)\<rparr>"

definition put_file :: "string \<Rightarrow> int option \<Rightarrow> system \<Rightarrow> system" where
  "put_file p sz s =
     (case sz of
        None \<Rightarrow> s\<lparr>files := AList.delete p (files s)\<rparr>
      | Some n \<Rightarrow> s\<lparr>files := AList.update p n (files s)\<rparr>)"

definition put_files :: "(string \<times> int) list \<Rightarrow> system \<Rightarrow> system" where
  "put_files fs s = fold (\<lambda>(p, n). put_file p (Some n)) fs s"

text \<open>The percentage stored in a snapshot, when it is a number.\<close>

definition percentage_of :: "snapshot \<Rightarrow> rat option" where
  "percentage_of snap =
     (case map_of snap ''percentage'' of Some (PNum q) \<Rightarrow> Some q | _ \<Rightarrow> None)"

definition action_of :: "snapshot \<Rightarrow> string option" where
  "action_of snap =
     (case map_of snap ''action'' of Some (PStr a) \<Rightarrow> Some a | _ \<Rightarrow> None)"

section \<open>Configuration\<close>

definition MAX_FILE_SIZE :: int where
  "MAX_FILE_SIZE = 2097152000"

definition PROGRESS_UPDATE_DELAY :: rat where
  "PROGRESS_UPDATE_DELAY = 1"

section \<open>Collaborators outside the repository\<close>

text \<open>The dictionary that the extraction engine passes to a progress hook.\<close>

record hook_call =
  hk_cancel :: bool
  hk_downloaded_bytes :: rat
  hk_total_bytes :: "rat option"
  hk_total_bytes_estimate :: "rat option"
  hk_filesize :: "rat option"
  hk_filesize_approx :: "rat option"
  hk_speed :: "rat option"

text \<open>
  The metadata \<^verbatim>\<open>info\<close> of the engine, with the keys that \<^verbatim>\<open>download_ytdlp\<close> reads;
  a key that is absent is \<open>None\<close>.
\<close>

record ytdlp_info =
  info_ext :: "string option"
  info_requested_formats :: "nat option"
  info_protocol :: "string option"
  info_extractor_key :: "string option"
  info_url :: "string option"

text \<open>
  One run of the engine's own downloader (\<^verbatim>\<open>ydl.process_info\<close>): the hook calls it
  makes, the exception it ends with if any, and the files it leaves.
\<close>

record native_run =
  nr_hooks :: "hook_call list"
  nr_error :: "exn option"
  nr_files :: "(string \<times> int) list"

text \<open>
  One iteration of the polling loop of the segmented downloader: the exception that
  reaches the coroutine at \<^verbatim>\<open>download.update()\<close> or at the sleep before it, if any (the
  daemon is unreachable, or the task is cancelled), else the status of the job as read
  after the update, with the value of the cancel flag at that iteration.
\<close>

record aria2_poll =
  ap_update_error :: "exn option"
  ap_is_complete :: bool
  ap_cancel :: bool
  ap_has_failed :: bool
  ap_error_message :: string
  ap_progress :: rat
  ap_speed :: string
  ap_completed :: string
  ap_total :: string

text \<open>
  One job of the daemon: whether \<^verbatim>\<open>add_uris\<close> raises, the statuses of the successive
  polls, and the size of the file at the output path once the job is complete
  (\<open>None\<close>: no file).
\<close>

record aria2_run =
  ar_add_error :: "exn option"
  ar_polls :: "aria2_poll list"
  ar_final_size :: "int option"

text \<open>
  One iteration of the polling loop of the remux subprocess: the exception that reaches
  the coroutine while it waits, if any (the task is cancelled), whether the process
  ended within the second, the cancel flag, and the clock. The run of the subprocess
  has the exception of its start, if any, the clock at the start, the polls, the exit
  status, the diagnostic output and the size of the file it leaves.
\<close>

record hls_poll =
  hp_error :: "exn option"
  hp_finished :: bool
  hp_cancel :: bool
  hp_now :: rat

record ffmpeg_run =
  fr_spawn_error :: "exn option"
  fr_start :: rat
  fr_polls :: "hls_poll list"
  fr_returncode :: int
  fr_stderr :: string
  fr_output :: "int option"

text \<open>The answer of the secondary extraction service.\<close>

record cobalt_response =
  cr_http_status :: int
  cr_text :: string
  cr_status :: "string option"
  cr_error_code :: "string option"
  cr_url :: "string option"
  cr_filename :: "string option"
  cr_picker :: "string option list option"

text \<open>
  The answer to the \<^verbatim>\<open>HEAD\<close> probe: two headers, and the group that the regular
  expression \<^verbatim>\<open>filename="?([^"]+)"?\<close> finds in \<^verbatim>\<open>Content-Disposition\<close>, if it matches.
\<close>

record head_response =
  hr_content_type :: "string option"
  hr_content_length :: "string option"
  hr_cd_filename :: "string option"

record env =
  YTDLP_AVAILABLE :: bool
  COBALT_API_URL :: string
  DOWNLOAD_LOCATION :: string
  urlparse :: "string \<Rightarrow> (string \<times> string) option"
  extractor_suitable :: "string \<Rightarrow> bool option"
  guess_type :: "string \<Rightarrow> string option"
  guess_extension :: "string \<Rightarrow> string option"
  extract_info :: "string \<Rightarrow> exn + ytdlp_info"
  process_info :: "string \<Rightarrow> native_run"
  aria2_add :: "string \<Rightarrow> string \<Rightarrow> aria2_run"
  ffmpeg_exec :: "string \<Rightarrow> string \<Rightarrow> ffmpeg_run"
  cobalt_post :: "string \<Rightarrow> exn + cobalt_response"
  http_head :: "string \<Rightarrow> exn + head_response"

text \<open>
  \<open>extract_info u\<close> is the metadata that lines 795 to 817 of \<^verbatim>\<open>download_ytdlp\<close> obtain
  (from the remote extraction service or from the engine), or the exception they end
  with. Messages to the chat are taken to succeed and change no state of the model.
  \<open>urlparse u\<close> is \<open>Some (netloc, path)\<close> of \<^verbatim>\<open>urllib.parse.urlparse(u)\<close>, or \<open>None\<close> when
  the parser raises; \<open>extractor_suitable u\<close> is the answer of the engine's extractors
  (\<^verbatim>\<open>any(e.suitable(url) ...)\<close>), or \<open>None\<close> when that raises.
\<close>

section \<open>Strategy classification\<close>

definition YTDLP_DOMAINS :: "string list" where
  "YTDLP_DOMAINS =
     [''youtube.com'', ''youtu.be'', ''youtube-nocookie.com'',
      ''instagram.com'',
      ''twitter.com'', ''x.com'', ''t.co'',
      ''tiktok.com'', ''vm.tiktok.com'',
      ''facebook.com'', ''fb.watch'', ''fb.com'',
      ''reddit.com'', ''v.redd.it'', ''redd.it'',
      ''dailymotion.com'', ''dai.ly'',
      ''vimeo.com'',
      ''twitch.tv'', ''clips.twitch.tv'',
      ''soundcloud.com'',
      ''bilibili.com'', ''b23.tv'',
      ''pinterest.com'', ''pin.it'',
      ''streamable.com'',
      ''rumble.com'',
      ''odysee.com'',
      ''bitchute.com'',
      ''mixcloud.com'']"

definition COBALT_DOMAINS :: "string list" where
  "COBALT_DOMAINS =
     [''youtube.com'', ''youtu.be'',
      ''reddit.com'', ''v.redd.it'', ''redd.it'']"

text \<open>\<^verbatim>\<open>any(host == d or host.endswith("." + d) for d in domains)\<close>.\<close>

definition host_in :: "string \<Rightarrow> string list \<Rightarrow> bool" where
  "host_in host domains = list_ex (\<lambda>d. host = d \<or> endswith host (''.'' @ d)) domains"

definition is_ytdlp_url :: "env \<Rightarrow> string \<Rightarrow> bool" where
  "is_ytdlp_url E url =
     (if \<not> YTDLP_AVAILABLE E then False
      else case urlparse E url of
             None \<Rightarrow> False
           | Some (netloc, path) \<Rightarrow>
               (let host = lstrip (lower netloc) ''www.''
                in if host_in host YTDLP_DOMAINS then True
                   else case extractor_suitable E url of None \<Rightarrow> False | Some b \<Rightarrow> b))"

definition is_cobalt_url :: "env \<Rightarrow> string \<Rightarrow> bool" where
  "is_cobalt_url E url =
     (if COBALT_API_URL E = [] then False
      else case urlparse E url of
             None \<Rightarrow> False
           | Some (netloc, path) \<Rightarrow>
               host_in (lstrip (lower netloc) ''www.'') COBALT_DOMAINS)"

definition needs_ffmpeg_download :: "env \<Rightarrow> string \<Rightarrow> string \<Rightarrow> exn + bool" where
  "needs_ffmpeg_download E url mime =
     (case urlparse E url of
        None \<Rightarrow> Inl (ValueError ''urlparse'')
      | Some (netloc, path) \<Rightarrow>
          (let ext = lower (snd (splitext path))
           in Inr (map_of STREAMING_EXTENSIONS ext \<noteq> None \<or> lower mime \<in> set HLS_MIME_TYPES)))"

section \<open>Progress written by the acquisition strategies\<close>

text \<open>\<^verbatim>\<open>a or b\<close> on numbers that may be \<^verbatim>\<open>None\<close>, and the truth value of such a number.\<close>

definition py_or :: "rat option \<Rightarrow> rat option \<Rightarrow> rat option" where
  "py_or a b = (case a of None \<Rightarrow> b | Some x \<Rightarrow> if x \<noteq> 0 then a else b)"

definition truthy :: "rat option \<Rightarrow> bool" where
  "truthy a = (case a of None \<Rightarrow> False | Some x \<Rightarrow> x \<noteq> 0)"

definition bind_exn :: "exn + 'a \<Rightarrow> ('a \<Rightarrow> exn + 'b) \<Rightarrow> exn + 'b" where
  "bind_exn m f = (case m of Inl e \<Rightarrow> Inl e | Inr x \<Rightarrow> f x)"

subsection \<open>The hook of the extraction engine\<close>

definition hook_total :: "hook_call \<Rightarrow> rat option" where
  "hook_total d =
     py_or (hk_total_bytes d)
       (py_or (hk_total_bytes_estimate d)
          (py_or (hk_filesize d)
             (case hk_filesize_approx d of None \<Rightarrow> Some 0 | Some x \<Rightarrow> Some x)))"

definition hook_display_percent :: "rat \<Rightarrow> rat" where
  "hook_display_percent percent =
     (let display_percent = max 1 (round1 percent)
      in if 100 \<le> display_percent then 995 / 10 else display_percent)"

text \<open>
  \<^verbatim>\<open>_progress_hook\<close>, up to the assignment to \<^verbatim>\<open>WEBAPP_PROGRESS\<close>; the edit of the chat
  message that follows it changes no state of the model.
\<close>

definition progress_hook :: "int \<Rightarrow> hook_call \<Rightarrow> system \<Rightarrow> exn + system" where
  "progress_hook user_id d s =
     (if hk_cancel d then Inl (CancelledError ''Download cancelled by user.'')
      else
        let done = hk_downloaded_bytes d;
            tot = hook_total d;
            speed = py_or (hk_speed d) (Some 0)
        in bind_exn (if truthy tot then map_sum id (\<lambda>q. q * 100) (truediv done (the tot))
                     else Inr 0) (\<lambda>percent.
           bind_exn (humanbytes (Some done)) (\<lambda>current_str.
           bind_exn (if truthy tot then humanbytes tot else Inr ''Unknown'') (\<lambda>total_str.
           bind_exn (if truthy speed then map_sum id (\<lambda>h. h @ ''/s'') (humanbytes speed)
                     else Inr []) (\<lambda>speed_str.
           Inr (write_progress user_id
                  [(''action'', PStr ''Downloading Media...''),
                   (''current'', PStr current_str),
                   (''total'', PStr total_str),
                   (''speed'', PStr speed_str),
                   (''percentage'', PNum (hook_display_percent percent))] s))))))"

subsection \<open>The segmented downloader\<close>

definition aria2c_display_pct :: "rat \<Rightarrow> rat" where
  "aria2c_display_pct progress =
     (let pct_int = py_int progress
      in if 100 \<le> pct_int then 995 / 10 else of_int pct_int)"

definition aria2c_snapshot :: "aria2_poll \<Rightarrow> snapshot" where
  "aria2c_snapshot p =
     [(''action'', PStr ''Downloading...''),
      (''current'', PStr (ap_completed p)),
      (''total'', PStr (ap_total p)),
      (''speed'', PStr (ap_speed p)),
      (''percentage'', PNum (aria2c_display_pct (ap_progress p)))]"

text \<open>
  The polling loop of \<^verbatim>\<open>_download_aria2c\<close>, one status per iteration. The branches are
  the source's, in its order: an exception of the update (the handler removes the
  output path when it is an \<^verbatim>\<open>Exception\<close>), completion, the cancel flag (the job and its files are
  removed, and the cancellation is not an \<^verbatim>\<open>Exception\<close>, so the handler below it does
  not run), failure of the job (removed, then the handler removes the output path and
  raises again), and the progress update. The loop has no bound of its own: when the
  statuses end before one of them completes, cancels or fails, the result is \<open>Hang\<close>.
\<close>

fun aria2c_loop ::
  "int \<Rightarrow> string \<Rightarrow> int option \<Rightarrow> aria2_poll list \<Rightarrow> system \<Rightarrow> string outcome \<times> system" where
  "aria2c_loop user_id out_path final [] s = (Hang, s)"
| "aria2c_loop user_id out_path final (p # ps) s =
     (case ap_update_error p of
        Some e \<Rightarrow> (Raise e, if is_Exception e then remove_quietly out_path s else s)
      | None \<Rightarrow>
          if ap_is_complete p then (Return out_path, put_file out_path final s)
          else if ap_cancel p
          then (Raise (CancelledError ''Download cancelled.''), remove_quietly out_path s)
          else if ap_has_failed p
          then (Raise (RuntimeError (''aria2c download failed: '' @ ap_error_message p)),
                remove_quietly out_path (remove_quietly out_path s))
          else case progress_bar (py_int (ap_progress p)) 100 12 of
                 Inl e \<Rightarrow> (Raise e, remove_quietly out_path s)
               | Inr bar \<Rightarrow>
                   aria2c_loop user_id out_path final ps
                     (write_progress user_id (aria2c_snapshot p) s))"

definition download_aria2c ::
  "env \<Rightarrow> string \<Rightarrow> string \<Rightarrow> int \<Rightarrow> system \<Rightarrow> string outcome \<times> system" where
  "download_aria2c E url out_path user_id s =
     (let s0 = log_call (EnterAria2c url out_path) s;
          run = aria2_add E url out_path
      in case ar_add_error run of
           Some e \<Rightarrow> (Raise e, s0)
         | None \<Rightarrow> aria2c_loop user_id out_path (ar_final_size run) (ar_polls run) s0)"

subsection \<open>The streaming remux fetcher\<close>

text \<open>\<^verbatim>\<open>x % m\<close> on numbers, for a positive \<open>m\<close>.\<close>

definition py_mod :: "rat \<Rightarrow> rat \<Rightarrow> rat" where
  "py_mod x m = x - m * of_int \<lfloor>x / m\<rfloor>"

definition hls_pulsing_pct :: "rat \<Rightarrow> rat" where
  "hls_pulsing_pct elapsed = min ((py_mod elapsed 10 / 10) * 100) (999 / 10)"

text \<open>The phase label of the remux, which ends in the thread emoji (U+1F9F5, as UTF-8).\<close>

definition WEAVING :: string where
  "WEAVING = ''Weaving Stream together... '' @ [CHR 0xF0, CHR 0x9F, CHR 0xA7, CHR 0xB5]"

definition hls_snapshot :: "rat \<Rightarrow> snapshot" where
  "hls_snapshot elapsed =
     [(''action'', PStr WEAVING),
      (''current'', PStr (time_formatter elapsed)),
      (''total'', PStr ''Unknown''),
      (''speed'', PStr ''Streaming''),
      (''percentage'', PNum (round1 (hls_pulsing_pct elapsed)))]"

text \<open>
  The polling loop of \<^verbatim>\<open>_download_hls\<close>: an exception reaches the wait, or the process
  has ended, or the cancel flag is
  set (the process is killed), or a snapshot is written when a second has passed since
  the last one. \<open>Hang\<close> when the process never ends.
\<close>

fun hls_loop ::
  "int \<Rightarrow> rat \<Rightarrow> rat \<Rightarrow> hls_poll list \<Rightarrow> system \<Rightarrow> unit outcome \<times> system" where
  "hls_loop user_id start last_edit [] s = (Hang, s)"
| "hls_loop user_id start last_edit (p # ps) s =
     (case hp_error p of
        Some e \<Rightarrow> (Raise e, s)
      | None \<Rightarrow>
          if hp_finished p then (Return (), s)
          else if hp_cancel p then (Raise (CancelledError ''Upload cancelled.''), s)
          else let now = hp_now p
               in if PROGRESS_UPDATE_DELAY \<le> now - last_edit
                  then hls_loop user_id start now ps
                         (write_progress user_id (hls_snapshot (now - start)) s)
                  else hls_loop user_id start last_edit ps s)"

text \<open>
  \<^verbatim>\<open>_download_hls\<close>. The handler \<^verbatim>\<open>except Exception\<close> removes the output and raises
  again; a cancellation passes it by. The model writes the output of the subprocess
  when the process ends.
\<close>

definition download_hls ::
  "env \<Rightarrow> string \<Rightarrow> string \<Rightarrow> int \<Rightarrow> system \<Rightarrow> string outcome \<times> system" where
  "download_hls E url out_path user_id s =
     (let s0 = log_call (EnterHls url out_path) s;
          run = ffmpeg_exec E url out_path
      in case fr_spawn_error run of
           Some e \<Rightarrow> (Raise e, s0)
         | None \<Rightarrow>
             (case hls_loop user_id (fr_start run) (fr_start run) (fr_polls run) s0 of
                (Hang, s1) \<Rightarrow> (Hang, s1)
              | (Raise e, s1) \<Rightarrow>
                  (Raise e, if is_Exception e then remove_quietly out_path s1 else s1)
              | (Return u, s1) \<Rightarrow>
                  (let s2 = put_file out_path (fr_output run) s1
                   in if fr_returncode run \<noteq> 0
                      then (Raise (RuntimeError
                              (''ffmpeg stream download failed:'' @ [CHR 0x0A] @
                               (if fr_stderr run \<noteq> []
                                then drop (length (fr_stderr run) - 600) (fr_stderr run)
                                else ''Unknown error''))),
                            remove_quietly out_path s2)
                      else (Return out_path, s2))))"

section \<open>The acquisition strategies\<close>

text \<open>\<^verbatim>\<open>re.sub(r'[\\/*?"<>|:]', "_", s)\<close>: each listed character becomes an underscore.\<close>

definition UNSAFE_CHARS :: "char list" where
  "UNSAFE_CHARS =
     [CHR 0x5C, CHR ''/'', CHR ''*'', CHR ''?'', CHR 0x22, CHR ''<'', CHR ''>'', CHR ''|'',
      CHR '':'']"

definition sanitize :: "string \<Rightarrow> string" where
  "sanitize s = map (\<lambda>c. if c \<in> set UNSAFE_CHARS then CHR ''_'' else c) s"

definition initial_snapshot :: "string \<Rightarrow> rat \<Rightarrow> string \<Rightarrow> string \<Rightarrow> snapshot" where
  "initial_snapshot action pct total_str speed_str =
     [(''action'', PStr action),
      (''percentage'', PNum pct),
      (''current'', PStr ''0 B''),
      (''total'', PStr total_str),
      (''speed'', PStr speed_str)]"

subsection \<open>The specialized extractor\<close>

text \<open>The hook calls of one native run, until one of them raises.\<close>

fun run_hooks :: "int \<Rightarrow> hook_call list \<Rightarrow> system \<Rightarrow> exn option \<times> system" where
  "run_hooks user_id [] s = (None, s)"
| "run_hooks user_id (d # ds) s =
     (case progress_hook user_id d s of
        Inl e \<Rightarrow> (Some e, s)
      | Inr s' \<Rightarrow> run_hooks user_id ds s')"

text \<open>
  \<^verbatim>\<open>os.listdir(out_dir)\<close> filtered by the stem and ordered by size, largest first: the
  head of that list. The order of the directory is the order of \<open>files\<close>.
\<close>

definition listdir :: "system \<Rightarrow> string \<Rightarrow> (string \<times> int) list" where
  "listdir s dir =
     map (\<lambda>(p, n). (drop (length dir + 1) p, n))
       (filter (\<lambda>(p, n). take (length dir + 1) p = dir @ ''/'' \<and>
                           CHR ''/'' \<notin> set (drop (length dir + 1) p) \<and>
                           drop (length dir + 1) p \<noteq> [])
          (files s))"

fun largest_first :: "(string \<times> int) list \<Rightarrow> (string \<times> int) option" where
  "largest_first [] = None"
| "largest_first ((f, n) # rest) =
     (case largest_first rest of
        None \<Rightarrow> Some (f, n)
      | Some (g, m) \<Rightarrow> if n < m then Some (g, m) else Some (f, n))"

definition is_single :: "ytdlp_info \<Rightarrow> bool" where
  "is_single info =
     (case info_requested_formats info of None \<Rightarrow> True | Some n \<Rightarrow> n = 0 \<or> n = 1)"

definition is_direct :: "ytdlp_info \<Rightarrow> bool" where
  "is_direct info =
     (let protocol = (case info_protocol info of None \<Rightarrow> [] | Some p \<Rightarrow> p);
          extractor = lower (case info_extractor_key info of None \<Rightarrow> [] | Some k \<Rightarrow> k);
          is_tricky = list_ex (\<lambda>t. str_contains extractor t)
                        [''facebook'', ''instagram'', ''twitter'', ''x'', ''tiktok'']
      in str_contains protocol ''http'' \<and> \<not> str_contains protocol ''m3u8'' \<and>
         \<not> str_contains protocol ''dash'' \<and> \<not> is_tricky)"

text \<open>
  Lines 861 to 872 of \<^verbatim>\<open>download_ytdlp\<close>: the output must exist, and an empty output is
  removed and reported as a failure.
\<close>

definition check_downloaded :: "string option \<Rightarrow> system \<Rightarrow> string outcome \<times> system" where
  "check_downloaded downloaded_path s =
     (case downloaded_path of
        None \<Rightarrow> (Raise (FileNotFoundError ''Error: output file not found after download''), s)
      | Some p \<Rightarrow>
          if p = [] \<or> \<not> path_exists s p
          then (Raise (FileNotFoundError ''Error: output file not found after download''), s)
          else case getsize s p of
                 Inl e \<Rightarrow> (Raise e, s)
               | Inr n \<Rightarrow>
                   if n = 0
                   then (Raise (ValueError
                           (''Downloaded file is empty (0 bytes). '' @
                            ''The download probably failed silently or was blocked.'')),
                         remove_quietly p s)
                   else (Return p, s))"

text \<open>
  The branch of \<^verbatim>\<open>_run_async\<close> that lets the engine download by itself, then looks for
  the output: the exact name first, else the largest file that starts with the stem.
\<close>

definition native_download ::
  "env \<Rightarrow> string \<Rightarrow> string \<Rightarrow> int \<Rightarrow> system \<Rightarrow> string outcome \<times> system" where
  "native_download E url safe_stem user_id s =
     (let out_dir = DOWNLOAD_LOCATION E;
          run = process_info E url
      in case run_hooks user_id (nr_hooks run) s of
           (Some e, s1) \<Rightarrow> (Raise e, put_files (nr_files run) s1)
         | (None, s1) \<Rightarrow>
             (let s2 = put_files (nr_files run) s1
              in case nr_error run of
                   Some e \<Rightarrow> (Raise e, s2)
                 | None \<Rightarrow>
                     (let mp4_path = path_join out_dir (safe_stem @ ''.mp4'')
                      in if path_exists s2 mp4_path
                         then check_downloaded (Some mp4_path) s2
                         else case largest_first
                                     (filter (\<lambda>(f, n). startswith f safe_stem)
                                        (listdir s2 out_dir)) of
                                None \<Rightarrow> check_downloaded None s2
                              | Some (f, n) \<Rightarrow>
                                  check_downloaded (Some (path_join out_dir f)) s2)))"

text \<open>
  \<^verbatim>\<open>_run_async\<close>: the extraction, then the hand-off of a single direct stream to the
  segmented downloader, or the engine's own download.
\<close>

definition run_async ::
  "env \<Rightarrow> string \<Rightarrow> string \<Rightarrow> int \<Rightarrow> system \<Rightarrow> string outcome \<times> system" where
  "run_async E url safe_stem user_id s =
     (case extract_info E url of
        Inl e \<Rightarrow> (Raise e, s)
      | Inr info \<Rightarrow>
          (let ext = (case info_ext info of None \<Rightarrow> ''mp4'' | Some x \<Rightarrow> x);
               target_path = path_join (DOWNLOAD_LOCATION E) (safe_stem @ ''.'' @ ext)
           in if is_single info \<and> is_direct info
              then (case info_url info of
                      None \<Rightarrow> (Raise (OtherError ''KeyError: url''), s)
                    | Some direct \<Rightarrow>
                        (case download_aria2c E direct target_path user_id s of
                           (Return p, s1) \<Rightarrow> check_downloaded (Some p) s1
                         | (Raise e, s1) \<Rightarrow> (Raise e, s1)
                         | (Hang, s1) \<Rightarrow> (Hang, s1)))
              else native_download E url safe_stem user_id s))"

definition download_ytdlp ::
  "env \<Rightarrow> string \<Rightarrow> string \<Rightarrow> int \<Rightarrow> system \<Rightarrow> (string \<times> string) outcome \<times> system" where
  "download_ytdlp E url filename user_id s =
     (let s0 = write_progress user_id
                 (initial_snapshot ''Analyzing Media URL...'' 5 ''Fetching size...'' ''---'')
                 (log_call (EnterYtdlp url) s);
          stem0 = take 80 (sanitize (fst (splitext filename)));
          safe_stem = (if stem0 = [] then ''video_file'' else stem0)
      in case run_async E url safe_stem user_id s0 of
           (Return file_path, s3) \<Rightarrow>
             (Return (file_path,
                      (case guess_type E file_path of None \<Rightarrow> ''video/mp4'' | Some m \<Rightarrow> m)), s3)
         | (Raise e, s3) \<Rightarrow> (Raise e, s3)
         | (Hang, s3) \<Rightarrow> (Hang, s3))"

subsection \<open>The secondary extraction fallback\<close>

text \<open>
  Step 1 of \<^verbatim>\<open>download_cobalt\<close>: what the answer of the service resolves to, the direct
  URL and the name that gives the extension, or the error raised.
\<close>

definition cobalt_resolve :: "string \<Rightarrow> cobalt_response \<Rightarrow> exn + (string \<times> string)" where
  "cobalt_resolve safe_stem resp =
     (if cr_http_status resp \<noteq> 200
      then Inl (ValueError (''Download server returned '' @
                  str_of_int (cr_http_status resp) @ '': '' @ take 200 (cr_text resp)))
      else if cr_status resp = Some ''error''
      then Inl (ValueError (''Extraction error: '' @
                  (case cr_error_code resp of None \<Rightarrow> ''unknown'' | Some c \<Rightarrow> c)))
      else
        bind_exn
          (if cr_status resp = Some ''tunnel'' \<or> cr_status resp = Some ''redirect''
           then Inr (cr_url resp,
                     (case cr_filename resp of None \<Rightarrow> safe_stem @ ''.mp4'' | Some f \<Rightarrow> f))
           else if cr_status resp = Some ''picker''
           then (case cr_picker resp of
                   None \<Rightarrow> Inl (ValueError ''No media found to extract'')
                 | Some [] \<Rightarrow> Inl (ValueError ''No media found to extract'')
                 | Some (item # items) \<Rightarrow> Inr (item, safe_stem @ ''.mp4''))
           else Inl (ValueError (''Download server returned unexpected status: '' @
                       (case cr_status resp of None \<Rightarrow> ''None'' | Some t \<Rightarrow> t))))
          (\<lambda>(download_url_str, cobalt_filename).
             case download_url_str of
               None \<Rightarrow> Inl (ValueError ''Could not extract media URL'')
             | Some direct \<Rightarrow>
                 if direct = [] then Inl (ValueError ''Could not extract media URL'')
                 else Inr (direct, cobalt_filename)))"

text \<open>
  The body of \<^verbatim>\<open>download_cobalt\<close> inside its outer \<^verbatim>\<open>try\<close>: step 1, then the download
  through the daemon, then the check of the output.
\<close>

definition download_cobalt_body ::
  "env \<Rightarrow> string \<Rightarrow> string \<Rightarrow> int \<Rightarrow> system \<Rightarrow> (string \<times> string) outcome \<times> system" where
  "download_cobalt_body E url filename user_id s =
     (let out_dir = DOWNLOAD_LOCATION E;
          safe_stem = take 80 (sanitize (fst (splitext filename)));
          s0 = write_progress user_id
                 (initial_snapshot ''Requesting Extraction Server...'' 5 ''Unknown'' ''---'') s
      in case bind_exn (cobalt_post E url) (cobalt_resolve safe_stem) of
           Inl e \<Rightarrow> (Raise e, s0)
         | Inr (direct, cobalt_filename) \<Rightarrow>
             (let ext0 = snd (splitext cobalt_filename);
                  ext = (if ext0 = [] then ''.mp4'' else ext0);
                  out_path = path_join out_dir (safe_stem @ ext);
                  s1 = write_progress user_id
                         (initial_snapshot ''Starting Download...'' 10
                            ''Fetching...'' ''Waiting'') s0
              in case download_aria2c E direct out_path user_id s1 of
                   (Hang, s2) \<Rightarrow> (Hang, s2)
                 | (Raise e, s2) \<Rightarrow>
                     (Raise e, if is_Exception e then remove_quietly out_path s2 else s2)
                 | (Return p, s2) \<Rightarrow>
                     if \<not> path_exists s2 out_path \<or> getsize s2 out_path = Inr 0
                     then (Raise (ValueError
                             (''Downloaded file from secondary server is empty '' @
                              ''(0 bytes).'')),
                           remove_quietly out_path s2)
                     else (Return (out_path,
                             (case guess_type E out_path of
                                None \<Rightarrow> ''video/mp4'' | Some m \<Rightarrow> m)), s2)))"

text \<open>
  \<^verbatim>\<open>download_cobalt\<close>: every \<^verbatim>\<open>Exception\<close> of the body becomes one \<^verbatim>\<open>ValueError\<close> whose
  message carries the original one.
\<close>

definition download_cobalt ::
  "env \<Rightarrow> string \<Rightarrow> string \<Rightarrow> int \<Rightarrow> system \<Rightarrow> (string \<times> string) outcome \<times> system" where
  "download_cobalt E url filename user_id s =
     (case download_cobalt_body E url filename user_id (log_call (EnterCobalt url) s) of
        (Raise e, s') \<Rightarrow>
          (if is_Exception e then (Raise (ValueError (''Download failed: '' @ exn_str e)), s')
           else (Raise e, s'))
      | r \<Rightarrow> r)"

section \<open>The orchestrator\<close>

definition WHITESPACE :: "char list" where
  "WHITESPACE = [CHR '' '', CHR 0x09, CHR 0x0A, CHR 0x0B, CHR 0x0C, CHR 0x0D]"

definition strip :: "string \<Rightarrow> string" where
  "strip s = rstrip (lstrip s WHITESPACE) WHITESPACE"

text \<open>\<^verbatim>\<open>s.isdigit()\<close> and \<^verbatim>\<open>int(s)\<close> for ASCII digits.\<close>

definition isdigit :: "string \<Rightarrow> bool" where
  "isdigit s = (s \<noteq> [] \<and> list_all (\<lambda>c. c \<in> set ''0123456789'') s)"

definition int_of_digits :: "string \<Rightarrow> int" where
  "int_of_digits s = foldl (\<lambda>a c. 10 * a + (int (of_char c) - 48)) 0 s"

text \<open>
  The handler of \<^verbatim>\<open>download_url\<close> for a failure of the specialized extractor: the
  secondary fallback when the domain is eligible for it, otherwise the error at once.
\<close>

definition ytdlp_failed ::
  "env \<Rightarrow> string \<Rightarrow> string \<Rightarrow> int \<Rightarrow> exn \<Rightarrow> system \<Rightarrow> (string \<times> string) outcome \<times> system" where
  "ytdlp_failed E url filename user_id ytdlp_err s =
     (if is_cobalt_url E url
      then (case download_cobalt E url filename user_id s of
              (Raise cobalt_err, s') \<Rightarrow>
                (if is_Exception cobalt_err
                 then (Raise (ValueError
                         (''Error 1: '' @ exn_str ytdlp_err @ [CHR 0x0A, CHR 0x0A] @
                          ''Error 2: '' @ exn_str cobalt_err)), s')
                 else (Raise cobalt_err, s'))
            | r \<Rightarrow> r)
      else (Raise (ValueError (exn_str ytdlp_err)), s))"

text \<open>
  What \<^verbatim>\<open>download_url\<close> reads from the answer to the probe: the media type
  (\<^verbatim>\<open>Content-Type\<close> up to the first semicolon, stripped) and the size (\<^verbatim>\<open>Content-Length\<close>
  when it is all digits, else zero).
\<close>

definition probed_mime :: "head_response \<Rightarrow> string" where
  "probed_mime head =
     strip (takeWhile (\<lambda>c. c \<noteq> CHR '';'')
              (case hr_content_type head of None \<Rightarrow> [] | Some t \<Rightarrow> t))"

definition probed_total :: "head_response \<Rightarrow> int" where
  "probed_total head =
     (let total_str = (case hr_content_length head of None \<Rightarrow> ''0'' | Some t \<Rightarrow> t)
      in if isdigit total_str then int_of_digits total_str else 0)"

text \<open>The generic path of \<^verbatim>\<open>download_url\<close>: the probe, then the remux or the daemon.\<close>

definition download_generic ::
  "env \<Rightarrow> string \<Rightarrow> string \<Rightarrow> int \<Rightarrow> system \<Rightarrow> (string \<times> string) outcome \<times> system" where
  "download_generic E url filename user_id s =
     (let download_dir = DOWNLOAD_LOCATION E;
          s1 = log_call (HeadProbe url)
                 (write_progress user_id
                    (initial_snapshot ''Identifying Resource...'' 5 ''Checking...'' ''---'') s)
      in case http_head E url of
           Inl e \<Rightarrow> (Raise e, s1)
         | Inr head \<Rightarrow>
             (let mime = probed_mime head;
                  tot = probed_total head;
                  filename1 =
                    (case hr_cd_filename head of
                       Some f \<Rightarrow> f
                     | None \<Rightarrow>
                         if snd (splitext filename) = []
                         then (case guess_extension E mime of
                                 None \<Rightarrow> filename
                               | Some ext \<Rightarrow> filename @ (if ext = ''.jpe'' then ''.jpg'' else ext))
                         else filename);
                  filename2 = smart_output_name filename1;
                  safe_name = take 80 (sanitize filename2);
                  file_path = path_join download_dir safe_name
              in case (if tot \<noteq> 0 then humanbytes (Some (of_int tot)) else Inr ''Unknown'') of
                   Inl e \<Rightarrow> (Raise e, s1)
                 | Inr total_text \<Rightarrow>
                     (let s2 = write_progress user_id
                                 (initial_snapshot ''Starting Stream Download...'' 10
                                    total_text ''---'') s1
                      in case needs_ffmpeg_download E url mime of
                           Inl e \<Rightarrow> (Raise e, s2)
                         | Inr True \<Rightarrow>
                             (let mp4_path = fst (splitext file_path) @ ''.mp4''
                              in case download_hls E url mp4_path user_id s2 of
                                   (Return p, s3) \<Rightarrow> (Return (mp4_path, ''video/mp4''), s3)
                                 | (Raise e, s3) \<Rightarrow> (Raise e, s3)
                                 | (Hang, s3) \<Rightarrow> (Hang, s3))
                         | Inr False \<Rightarrow>
                             if MAX_FILE_SIZE < tot
                             then (case humanbytes (Some (of_int tot)) of
                                     Inl e \<Rightarrow> (Raise e, s2)
                                   | Inr a \<Rightarrow>
                                       (case humanbytes (Some (of_int MAX_FILE_SIZE)) of
                                          Inl e \<Rightarrow> (Raise e, s2)
                                        | Inr b \<Rightarrow>
                                            (Raise (ValueError
                                               (''File too large: '' @ a @ '' (max '' @ b @ '')'')),
                                             s2)))
                             else (case download_aria2c E url file_path user_id s2 of
                                     (Return p, s3) \<Rightarrow>
                                       (Return (file_path,
                                          (case guess_type E file_path of
                                             None \<Rightarrow> mime | Some m \<Rightarrow> m)), s3)
                                   | (Raise e, s3) \<Rightarrow> (Raise e, s3)
                                   | (Hang, s3) \<Rightarrow> (Hang, s3)))))"

definition download_url ::
  "env \<Rightarrow> string \<Rightarrow> string \<Rightarrow> int \<Rightarrow> system \<Rightarrow> (string \<times> string) outcome \<times> system" where
  "download_url E url filename0 user_id s =
     (let filename = smart_output_name filename0
      in if is_ytdlp_url E url
         then (case download_ytdlp E url filename user_id s of
                 (Return (res_path, res_mime), s1) \<Rightarrow>
                   if res_path \<noteq> [] \<and> path_exists s1 res_path \<and>
                      (case getsize s1 res_path of Inl e \<Rightarrow> False | Inr n \<Rightarrow> 0 < n)
                   then (Return (res_path, res_mime), s1)
                   else ytdlp_failed E url filename user_id
                          (ValueError ''Final yt-dlp download produced a 0B file.'') s1
               | (Raise ytdlp_err, s1) \<Rightarrow>
                   if is_Exception ytdlp_err
                   then ytdlp_failed E url filename user_id ytdlp_err s1
                   else (Raise ytdlp_err, s1)
               | (Hang, s1) \<Rightarrow> (Hang, s1))
         else if is_cobalt_url E url
         then (case download_cobalt E url filename user_id s of
                 (Return r, s1) \<Rightarrow> (Return r, s1)
               | (Raise e, s1) \<Rightarrow>
                   if is_Exception e then download_generic E url filename user_id s1
                   else (Raise e, s1)
               | (Hang, s1) \<Rightarrow> (Hang, s1))
         else download_generic E url filename user_id s)"

section \<open>The task registry and the web endpoints\<close>

text \<open>
  \<^verbatim>\<open>do_upload\<close> up to its \<^verbatim>\<open>await task\<close>: a fresh cancel flag and a fresh task, stored
  under the requester id. No branch of it reads \<^verbatim>\<open>ACTIVE_TASKS\<close> first.
\<close>

definition do_upload :: "int \<Rightarrow> system \<Rightarrow> system" where
  "do_upload user_id s =
     (let cancel_ref = length (cancel_refs s);
          task_id = length (tasks s)
      in s\<lparr>ACTIVE_TASKS := AList.update user_id (task_id, cancel_ref) (ACTIVE_TASKS s),
           tasks := tasks s @
             [(task_id, \<lparr>task_user = user_id, task_done = False,
                         task_cancel_requested = False\<rparr>)],
           cancel_refs := cancel_refs s @ [(cancel_ref, False)]\<rparr>)"

text \<open>
  The \<^verbatim>\<open>finally\<close> clause of \<^verbatim>\<open>do_upload\<close>, when the task it awaits has ended:
  \<^verbatim>\<open>ACTIVE_TASKS.pop(user_id, None)\<close>.
\<close>

definition do_upload_finally :: "nat \<Rightarrow> system \<Rightarrow> system" where
  "do_upload_finally task_id s =
     (case map_of (tasks s) task_id of
        None \<Rightarrow> s
      | Some t \<Rightarrow>
          s\<lparr>tasks := AList.update task_id (t\<lparr>task_done := True\<rparr>) (tasks s),
            ACTIVE_TASKS := AList.delete (task_user t) (ACTIVE_TASKS s)\<rparr>)"

text \<open>The first statements of \<^verbatim>\<open>_do_upload_logic\<close>, which every task runs when it starts.\<close>

definition do_upload_logic_start :: "nat \<Rightarrow> system \<Rightarrow> system" where
  "do_upload_logic_start task_id s =
     (case map_of (tasks s) task_id of
        None \<Rightarrow> s
      | Some t \<Rightarrow>
          write_progress (task_user t)
            (initial_snapshot ''Handing off to Engine...'' 4 ''Unknown'' ''---'')
            (write_progress (task_user t)
               (initial_snapshot ''Preparing Bot Context...'' 5 ''Unknown'' ''---'') s))"

text \<open>
  \<^verbatim>\<open>trigger_webapp_download\<close>. The snapshot is written first. The statements between
  that assignment and \<^verbatim>\<open>asyncio.create_task\<close> can raise (\<^verbatim>\<open>send_message\<close>,
  \<^verbatim>\<open>extract_filename\<close>, \<^verbatim>\<open>smart_output_name\<close>, and \<^verbatim>\<open>format_id.startswith\<close> on a value that
  is not a string), and then the coroutine ends there, with no task created:
  \<open>before_task\<close> is that exception, if any. A failure of \<^verbatim>\<open>resolve_url\<close> is caught by the
  source and changes nothing.
\<close>

definition trigger_webapp_download :: "exn option \<Rightarrow> int \<Rightarrow> system \<Rightarrow> system" where
  "trigger_webapp_download before_task chat_id s =
     (let s1 = write_progress chat_id
                 (initial_snapshot ''Initializing download...'' 1 ''Unknown'' ''---'') s
      in case before_task of
           Some e \<Rightarrow> s1
         | None \<Rightarrow> do_upload chat_id s1)"

datatype response = Response int string

text \<open>
  A value of the JSON object that a web request carries under a key: \<open>JNull\<close> when the
  key is absent or null, a boolean, an integer, a number with a fraction, a string, or
  an array or object (\<open>JOther nonempty\<close>). The parser of the standard library also reads
  \<^verbatim>\<open>Infinity\<close>, \<^verbatim>\<open>-Infinity\<close> and \<^verbatim>\<open>NaN\<close>: \<open>JInfinity\<close> and \<open>JNaN\<close>.
\<close>

datatype jval =
    JNull | JBool bool | JNum int | JFloat rat | JInfinity | JNaN | JStr string | JOther bool

text \<open>The truth value of such a value, as \<^verbatim>\<open>not v\<close> tests it.\<close>

fun py_truthy :: "jval \<Rightarrow> bool" where
  "py_truthy JNull = False"
| "py_truthy (JBool b) = b"
| "py_truthy (JNum n) = (n \<noteq> 0)"
| "py_truthy (JFloat x) = (x \<noteq> 0)"
| "py_truthy JInfinity = True"
| "py_truthy JNaN = True"
| "py_truthy (JStr t) = (t \<noteq> [])"
| "py_truthy (JOther nonempty) = nonempty"

text \<open>
  \<^verbatim>\<open>int(t)\<close> of a string: white space around, a sign, then decimal digits, with single
  underscores allowed between digits; anything else raises \<^verbatim>\<open>ValueError\<close>, and so does a
  literal of more than 4300 digits (the limit of the interpreters from 3.11 on). Only
  ASCII strings are modelled, and the message shows the string between plain quotes,
  where the interpreter shows its \<^verbatim>\<open>repr\<close>.
\<close>

definition int_literal :: "string \<Rightarrow> bool" where
  "int_literal b =
     (b \<noteq> [] \<and> list_all (\<lambda>c. c \<in> set ''0123456789_'') b \<and>
      hd b \<noteq> CHR ''_'' \<and> last b \<noteq> CHR ''_'' \<and> \<not> str_contains b ''__'')"

definition int_of_str :: "string \<Rightarrow> exn + int" where
  "int_of_str t =
     (let u = strip t;
          signed = (startswith u ''-'' \<or> startswith u ''+'');
          body = (if signed then tl u else u);
          digits = filter (\<lambda>c. c \<noteq> CHR ''_'') body
      in if \<not> int_literal body
         then Inl (ValueError (''invalid literal for int() with base 10: '' @
                               [CHR 0x27] @ t @ [CHR 0x27]))
         else if 4300 < int (length digits)
         then Inl (ValueError ''Exceeds the limit (4300 digits) for integer string conversion'')
         else Inr ((if startswith u ''-'' then - 1 else 1) * int_of_digits digits))"

text \<open>\<^verbatim>\<open>int(v)\<close> of a value of the request.\<close>

fun py_int_of :: "jval \<Rightarrow> exn + int" where
  "py_int_of JNull = Inl (TypeError ''int() argument must be a string or a number'')"
| "py_int_of (JBool b) = Inr (if b then 1 else 0)"
| "py_int_of (JNum n) = Inr n"
| "py_int_of (JFloat x) = Inr (py_int x)"
| "py_int_of JInfinity = Inl (OtherError ''OverflowError: cannot convert float infinity to integer'')"
| "py_int_of JNaN = Inl (ValueError ''cannot convert float NaN to integer'')"
| "py_int_of (JStr t) = int_of_str t"
| "py_int_of (JOther nonempty) = Inl (TypeError ''int() argument must be a string or a number'')"

text \<open>
  \<^verbatim>\<open>api_download\<close>, for a request whose body is a JSON object with the values \<open>url\<close> and
  \<open>chat_id\<close>. The handler raises (\<open>Inl\<close>) where the source does outside its \<^verbatim>\<open>try\<close>: at
  \<^verbatim>\<open>url.lower()\<close> for a value that is not a string, and at \<^verbatim>\<open>int(...)\<close>. \<open>schedule\<close> is the
  exception of \<^verbatim>\<open>run_coroutine_threadsafe\<close>, if any, which the source answers with 500.
  The coroutine it queues is run at once, with \<open>before_task\<close> as above.
\<close>

definition api_download ::
  "jval \<Rightarrow> jval \<Rightarrow> exn option \<Rightarrow> exn option \<Rightarrow> system \<Rightarrow> (exn + response) \<times> system" where
  "api_download url chat_id schedule before_task s =
     (if \<not> is_ready s then (Inr (Response 503 ''Bot is not ready''), s)
      else if \<not> py_truthy url \<or> \<not> py_truthy chat_id
      then (Inr (Response 400 ''URL or chat_id missing.''), s)
      else case url of
             JStr u \<Rightarrow>
               if str_contains (lower u) ''youtube.com'' \<or> str_contains (lower u) ''youtu.be''
               then (Inr (Response 403 ''YouTube downloading not allowed.''), s)
               else (case py_int_of chat_id of
                       Inl e \<Rightarrow> (Inl e, s)
                     | Inr c \<Rightarrow>
                         (case schedule of
                            Some e \<Rightarrow> (Inr (Response 500 (exn_str e)), s)
                          | None \<Rightarrow>
                              (Inr (Response 200 ''queued''),
                               trigger_webapp_download before_task c s)))
           | _ \<Rightarrow> (Inl (OtherError ''AttributeError: object has no attribute lower''), s))"

text \<open>
  The two parts of the cancellation signal: \<^verbatim>\<open>cancel_ref[0] = True\<close> and
  \<^verbatim>\<open>task.cancel()\<close>.
\<close>

definition set_cancel_flag :: "nat \<Rightarrow> system \<Rightarrow> system" where
  "set_cancel_flag cancel_ref s = s\<lparr>cancel_refs := AList.update cancel_ref True (cancel_refs s)\<rparr>"

definition task_cancel :: "nat \<Rightarrow> system \<Rightarrow> system" where
  "task_cancel task_id s =
     (case map_of (tasks s) task_id of
        None \<Rightarrow> s
      | Some t \<Rightarrow>
          s\<lparr>tasks := AList.update task_id (t\<lparr>task_cancel_requested := True\<rparr>) (tasks s)\<rparr>)"



section \<open>The background sweep\<close>

text \<open>
  One pass of \<^verbatim>\<open>prune_progress_task\<close> at the time \<open>now\<close>. The list \<^verbatim>\<open>to_del\<close> is built
  first; an exception while building it is swallowed and the pass deletes nothing.
\<close>

fun stale_ids :: "rat \<Rightarrow> (int \<times> snapshot) list \<Rightarrow> exn + int list" where
  "stale_ids now [] = Inr []"
| "stale_ids now ((uid, info) # rest) =
     (case (case map_of info ''_last_update'' of
              None \<Rightarrow> Inr now
            | Some (PNum t) \<Rightarrow> Inr t
            | Some (PStr t) \<Rightarrow> Inl (TypeError ''unsupported operand type(s) for -'')) of
        Inl e \<Rightarrow> Inl e
      | Inr t \<Rightarrow>
          (case stale_ids now rest of
             Inl e \<Rightarrow> Inl e
           | Inr to_del \<Rightarrow> Inr (if 3600 < now - t then uid # to_del else to_del)))"

definition prune_pass :: "rat \<Rightarrow> system \<Rightarrow> system" where
  "prune_pass now s =
     (case stale_ids now (WEBAPP_PROGRESS s) of
        Inl e \<Rightarrow> s
      | Inr to_del \<Rightarrow> s\<lparr>WEBAPP_PROGRESS := fold AList.delete to_del (WEBAPP_PROGRESS s)\<rparr>)"

section \<open>Concrete inputs\<close>

text \<open>The state of a started service with no request yet.\<close>

definition idle_system :: system where
  "idle_system =
     \<lparr>is_ready = True, ACTIVE_TASKS = [], tasks = [], cancel_refs = [],
      WEBAPP_PROGRESS = [], progress_log = [], files = [], calls = []\<rparr>"

text \<open>
  A world in which every collaborator fails or finds nothing; the scenarios below
  change the fields they need.
\<close>

definition quiet_env :: env where
  "quiet_env =
     \<lparr>YTDLP_AVAILABLE = True,
      COBALT_API_URL = ''https://cobalt.example'',
      DOWNLOAD_LOCATION = ''/app/DOWNLOADS'',
      urlparse = (\<lambda>u. Some ([], [])),
      extractor_suitable = (\<lambda>u. Some False),
      guess_type = (\<lambda>p. None),
      guess_extension = (\<lambda>m. None),
      extract_info = (\<lambda>u. Inl (OtherError ''Unsupported URL'')),
      process_info = (\<lambda>u. \<lparr>nr_hooks = [], nr_error = None, nr_files = []\<rparr>),
      aria2_add = (\<lambda>u p. \<lparr>ar_add_error = Some (OtherError ''daemon unreachable''),
                            ar_polls = [], ar_final_size = None\<rparr>),
      ffmpeg_exec = (\<lambda>u p. \<lparr>fr_spawn_error = Some (FileNotFoundError ''ffmpeg''),
                              fr_start = 0, fr_polls = [], fr_returncode = 1,
                              fr_stderr = [], fr_output = None\<rparr>),
      cobalt_post = (\<lambda>u. Inl (OtherError ''connection refused'')),
      http_head = (\<lambda>u. Inl (OtherError ''connection refused''))\<rparr>"

text \<open>One status of the daemon: running, not cancelled, at the given progress.\<close>

definition running_at :: "rat \<Rightarrow> aria2_poll" where
  "running_at q =
     \<lparr>ap_update_error = None, ap_is_complete = False, ap_cancel = False,
      ap_has_failed = False,
      ap_error_message = [], ap_progress = q, ap_speed = ''1.0MiB/s'',
      ap_completed = ''1.0MiB'', ap_total = ''2.0MiB''\<rparr>"

definition completed_poll :: aria2_poll where
  "completed_poll = (running_at 100)\<lparr>ap_is_complete := True\<rparr>"

text \<open>
  Scenario C of the specification: \<^verbatim>\<open>https://cdn.example.com/file.zip\<close> answers the
  probe with \<^verbatim>\<open>Content-Length: 5000000000\<close>.
\<close>

definition scenario_C_url :: string where
  "scenario_C_url = ''https://cdn.example.com/file.zip''"

definition scenario_C_env :: env where
  "scenario_C_env =
     quiet_env\<lparr>
       urlparse := (\<lambda>u. Some (''cdn.example.com'', ''/file.zip'')),
       guess_type := (\<lambda>p. Some ''application/zip''),
       aria2_add := (\<lambda>u p. \<lparr>ar_add_error = None, ar_polls = [running_at 50, completed_poll],
                             ar_final_size = Some 5000000000\<rparr>),
       http_head := (\<lambda>u. Inr \<lparr>hr_content_type = Some ''application/zip'',
                               hr_content_length = Some ''5000000000'',
                               hr_cd_filename = None\<rparr>)\<rparr>"

text \<open>
  A direct file whose server sends an empty body: the daemon reports the job complete
  and leaves a file of zero bytes.
\<close>

definition empty_body_url :: string where
  "empty_body_url = ''https://cdn.example.com/empty.bin''"

definition empty_body_env :: env where
  "empty_body_env =
     quiet_env\<lparr>
       urlparse := (\<lambda>u. Some (''cdn.example.com'', ''/empty.bin'')),
       aria2_add := (\<lambda>u p. \<lparr>ar_add_error = None, ar_polls = [completed_poll],
                             ar_final_size = Some 0\<rparr>),
       http_head := (\<lambda>u. Inr \<lparr>hr_content_type = Some ''application/octet-stream'',
                               hr_content_length = Some ''0'',
                               hr_cd_filename = None\<rparr>)\<rparr>"

text \<open>
  A stream whose remux subprocess ends with status zero and an empty output, after two
  polls at 9 and 11 seconds.
\<close>

definition stream_url :: string where
  "stream_url = ''https://example.com/clip.m3u8''"

definition stream_env :: env where
  "stream_env =
     quiet_env\<lparr>
       urlparse := (\<lambda>u. Some (''example.com'', ''/clip.m3u8'')),
       ffmpeg_exec := (\<lambda>u p.
         \<lparr>fr_spawn_error = None, fr_start = 0,
          fr_polls =
            [\<lparr>hp_error = None, hp_finished = False, hp_cancel = False, hp_now = 9\<rparr>,
             \<lparr>hp_error = None, hp_finished = False, hp_cancel = False, hp_now = 11\<rparr>,
             \<lparr>hp_error = None, hp_finished = True, hp_cancel = False, hp_now = 12\<rparr>],
          fr_returncode = 0, fr_stderr = [], fr_output = Some 0\<rparr>),
       http_head := (\<lambda>u. Inr \<lparr>hr_content_type = Some ''application/vnd.apple.mpegurl'',
                               hr_content_length = None,
                               hr_cd_filename = None\<rparr>)\<rparr>"

text \<open>
  A page of a platform on the extractor's list and not on the fallback's: the
  extraction fails.
\<close>

definition vimeo_url :: string where
  "vimeo_url = ''https://vimeo.com/12345''"

definition vimeo_env :: env where
  "vimeo_env =
     quiet_env\<lparr>
       urlparse := (\<lambda>u. Some (''vimeo.com'', ''/12345'')),
       extract_info := (\<lambda>u. Inl (OtherError ''ERROR: Unable to download webpage''))\<rparr>"

text \<open>
  Scenario E of the specification: a page of a platform on both lists; the extraction
  fails and the fallback service answers with status 500.
\<close>

definition reddit_url :: string where
  "reddit_url = ''https://www.reddit.com/r/videos/comments/abc''"

definition reddit_env :: env where
  "reddit_env =
     quiet_env\<lparr>
       urlparse := (\<lambda>u. Some (''www.reddit.com'', ''/r/videos/comments/abc'')),
       extract_info := (\<lambda>u. Inl (OtherError ''ERROR: Unable to download webpage'')),
       cobalt_post := (\<lambda>u. Inr \<lparr>cr_http_status = 500, cr_text = ''internal error'',
                                 cr_status = None, cr_error_code = None, cr_url = None,
                                 cr_filename = None, cr_picker = None\<rparr>)\<rparr>"


text \<open>A hook call of the engine with all of 1000 bytes done.\<close>

definition hook_at_end :: hook_call where
  "hook_at_end =
     \<lparr>hk_cancel = False, hk_downloaded_bytes = 1000, hk_total_bytes = Some 1000,
      hk_total_bytes_estimate = None, hk_filesize = None, hk_filesize_approx = None,
      hk_speed = Some 2048\<rparr>"

text \<open>Requester 7 submits the same direct file twice through the web endpoint.\<close>

definition twice_submitted :: system where
  "twice_submitted =
     snd (api_download (JStr ''https://cdn.example.com/a.bin'') (JNum 7) None None
            (snd (api_download (JStr ''https://cdn.example.com/a.bin'') (JNum 7) None None
                    idle_system)))"

section \<open>Auxiliary predicates for the proofs\<close>

text \<open>Whether the last component of a stem has a character that is not a dot.\<close>

definition stem_has_name :: "string \<Rightarrow> bool" where
  "stem_has_name xs =
     (\<exists>k. rfind xs CHR ''/'' + 1 \<le> k \<and> k < int (length xs) \<and> xs ! nat k \<noteq> CHR ''.'')"

text \<open>The calls that belong to the generic path of \<^verbatim>\<open>download_url\<close>.\<close>

fun generic_call :: "call \<Rightarrow> bool" where
  "generic_call (HeadProbe u) = True"
| "generic_call (EnterHls u p) = True"
| "generic_call c = False"

definition generic_calls :: "system \<Rightarrow> call list" where
  "generic_calls s = filter generic_call (calls s)"

text \<open>The tasks of a requester that have not ended and that nobody asked to cancel.\<close>

definition live_tasks :: "system \<Rightarrow> int \<Rightarrow> nat list" where
  "live_tasks s user_id =
     map fst (filter (\<lambda>(task_id, t). task_user t = user_id \<and> \<not> task_done t \<and>
                                      \<not> task_cancel_requested t) (tasks s))"

text \<open>A status of the daemon on which the polling loop writes progress and goes on.\<close>

definition aria2_running :: "aria2_poll \<Rightarrow> bool" where
  "aria2_running p =
     (ap_update_error p = None \<and> \<not> ap_is_complete p \<and> \<not> ap_cancel p \<and>
      \<not> ap_has_failed p)"

text \<open>The phase label and the percentage of every snapshot written so far, in order.\<close>

definition logged_percentages :: "system \<Rightarrow> (string option \<times> rat option) list" where
  "logged_percentages s = map (\<lambda>(u, snap). (action_of snap, percentage_of snap)) (progress_log s)"

text \<open>The snapshots written between two states, oldest first.\<close>

definition written_since :: "system \<Rightarrow> system \<Rightarrow> (int \<times> snapshot) list" where
  "written_since s s' = drop (length (progress_log s)) (progress_log s')"

text \<open>
  The percentages that the polling loop of the segmented downloader writes for a
  sequence of statuses: one for each status before the first that completes, cancels
  or fails.
\<close>

definition aria2c_percentages :: "aria2_poll list \<Rightarrow> rat list" where
  "aria2c_percentages polls =
     map (\<lambda>p. aria2c_display_pct (ap_progress p)) (takeWhile aria2_running polls)"

section \<open>The trace of calls through the strategies\<close>

lemma calls_write_progress [simp]: "calls (write_progress u snap s) = calls s"
  by (simp add: write_progress_def)

lemma files_write_progress [simp]: "files (write_progress u snap s) = files s"
  by (simp add: write_progress_def)

lemma calls_log_call [simp]: "calls (log_call c s) = calls s @ [c]"
  by (simp add: log_call_def)

lemma files_log_call [simp]: "files (log_call c s) = files s"
  by (simp add: log_call_def)

lemma calls_remove_quietly [simp]: "calls (remove_quietly p s) = calls s"
  by (simp add: remove_quietly_def)

lemma calls_put_file [simp]: "calls (put_file p n s) = calls s"
  by (simp add: put_file_def split: option.splits)

lemma calls_put_files [simp]: "calls (put_files fs s) = calls s"
  unfolding put_files_def by (induction fs arbitrary: s) (auto split: prod.splits)

lemma calls_progress_hook: "progress_hook u d s = Inr s' \<Longrightarrow> calls s' = calls s"
  by (auto simp: progress_hook_def bind_exn_def Let_def split: if_splits sum.splits)

lemma calls_run_hooks: "run_hooks u ds s = (r, s') \<Longrightarrow> calls s' = calls s"
  by (induction ds arbitrary: s) (auto split: sum.splits dest: calls_progress_hook)

lemma calls_aria2c_loop: "aria2c_loop u out fin ps s = (r, s') \<Longrightarrow> calls s' = calls s"
  by (induction ps arbitrary: s) (auto split: if_splits sum.splits option.splits)

lemma calls_download_aria2c:
  "download_aria2c E url out u s = (r, s') \<Longrightarrow> calls s' = calls s @ [EnterAria2c url out]"
  by (auto simp: download_aria2c_def Let_def split: option.splits dest: calls_aria2c_loop)

lemma calls_check_downloaded: "check_downloaded p s = (r, s') \<Longrightarrow> calls s' = calls s"
  by (auto simp: check_downloaded_def split: option.splits if_splits sum.splits)

lemma calls_native_download:
  "native_download E url stem u s = (r, s') \<Longrightarrow> calls s' = calls s"
  by (auto simp: native_download_def Let_def
      split: prod.splits option.splits if_splits
      dest!: calls_run_hooks calls_check_downloaded)

lemma calls_run_async:
  "run_async E url stem u s = (r, s') \<Longrightarrow> \<exists>cs. calls s' = calls s @ cs \<and> filter generic_call cs = []"
  by (auto simp: run_async_def Let_def
      split: sum.splits option.splits if_splits prod.splits outcome.splits
      dest!: calls_native_download calls_download_aria2c calls_check_downloaded)

lemma generic_calls_download_ytdlp:
  "download_ytdlp E url filename u s = (r, s') \<Longrightarrow> generic_calls s' = generic_calls s"
  by (auto simp: download_ytdlp_def generic_calls_def Let_def
      split: prod.splits outcome.splits dest!: calls_run_async)

lemma calls_download_cobalt_body:
  "download_cobalt_body E url filename u s = (r, s') \<Longrightarrow> \<exists>cs. calls s' = calls s @ cs"
  by (auto simp: download_cobalt_body_def Let_def
      split: sum.splits if_splits prod.splits outcome.splits
      dest!: calls_download_aria2c)

section \<open>The extension remap\<close>

lemma rfind_from_notin: "c \<notin> set xs \<Longrightarrow> rfind_from c xs i r = r"
  by (induction xs arbitrary: i r) auto

lemma rfind_from_last:
  "c \<notin> set ys \<Longrightarrow> rfind_from c (xs @ c # ys) i r = i + int (length xs)"
  by (induction xs arbitrary: i r) (auto simp: rfind_from_notin)

lemma rfind_notin: "c \<notin> set p \<Longrightarrow> rfind p c = - 1"
  by (simp add: rfind_def rfind_from_notin)

lemma rfind_last: "c \<notin> set ys \<Longrightarrow> rfind (xs @ c # ys) c = int (length xs)"
  by (simp add: rfind_def rfind_from_last)

lemma rfind_cases:
  obtains (absent) "c \<notin> set p" "rfind p c = - 1"
  | (present) xs ys where "p = xs @ c # ys" "c \<notin> set ys" "rfind p c = int (length xs)"
proof (cases "c \<in> set p")
  case True
  then obtain xs ys where "p = xs @ c # ys" "c \<notin> set ys"
    using split_list_last by fastforce
  then show ?thesis using present rfind_last by blast
next
  case False
  then show ?thesis using absent rfind_notin by blast
qed

lemma rfind_append_notin: "c \<notin> set ys \<Longrightarrow> rfind (xs @ ys) c = rfind xs c"
proof (cases xs c rule: rfind_cases[case_names absent present])
  case absent
  then show "c \<notin> set ys \<Longrightarrow> rfind (xs @ ys) c = rfind xs c" by (simp add: rfind_notin)
next
  case (present as bs)
  assume "c \<notin> set ys"
  then have "rfind (as @ c # (bs @ ys)) c = int (length as)"
    using present by (intro rfind_last) auto
  then show "rfind (xs @ ys) c = rfind xs c" using present by simp
qed

lemma rfind_bounds: "- 1 \<le> rfind p c \<and> rfind p c < int (length p)"
  by (cases p c rule: rfind_cases) auto

text \<open>The library's scan finds a character other than a dot between the two indices.\<close>

lemma leading_dots_scan_iff:
  "0 \<le> i \<Longrightarrow> j \<le> int (length p) \<Longrightarrow>
   leading_dots_scan p i j = (\<exists>k. i \<le> k \<and> k < j \<and> p ! nat k \<noteq> CHR ''.'')"
proof (induction p i j rule: leading_dots_scan.induct)
  case (1 p i j)
  show ?case
  proof (cases "i < j")
    case False
    then show ?thesis by (subst leading_dots_scan.simps) auto
  next
    case True
    then have len: "nat i < length p" using 1(2,3) by linarith
    have sl: "slice p i (i + 1) = [p ! nat i]"
      using len 1(2)
      by (simp add: slice_def nat_add_distrib take_Suc_conv_app_nth hd_drop_conv_nth take_Suc)
    show ?thesis
    proof (cases "p ! nat i = CHR ''.''")
      case False
      then show ?thesis using True sl by (subst leading_dots_scan.simps) auto
    next
      case dot: True
      have "leading_dots_scan p i j = leading_dots_scan p (i + 1) j"
        using True sl dot by (subst leading_dots_scan.simps) simp
      also have "\<dots> = (\<exists>k. i + 1 \<le> k \<and> k < j \<and> p ! nat k \<noteq> CHR ''.'')"
        using 1(1)[OF True] sl dot 1(2,3) by simp
      also have "\<dots> = (\<exists>k. i \<le> k \<and> k < j \<and> p ! nat k \<noteq> CHR ''.'')"
      proof
        assume "\<exists>k. i + 1 \<le> k \<and> k < j \<and> p ! nat k \<noteq> CHR ''.''"
        then obtain k where "i + 1 \<le> k" "k < j" "p ! nat k \<noteq> CHR ''.''" by blast
        then have "i \<le> k \<and> k < j \<and> p ! nat k \<noteq> CHR ''.''" by simp
        then show "\<exists>k. i \<le> k \<and> k < j \<and> p ! nat k \<noteq> CHR ''.''" ..
      next
        assume "\<exists>k. i \<le> k \<and> k < j \<and> p ! nat k \<noteq> CHR ''.''"
        then obtain k where k: "i \<le> k" "k < j" "p ! nat k \<noteq> CHR ''.''" by blast
        then have "k \<noteq> i" using dot by auto
        then have "i + 1 \<le> k \<and> k < j \<and> p ! nat k \<noteq> CHR ''.''" using k by simp
        then show "\<exists>k. i + 1 \<le> k \<and> k < j \<and> p ! nat k \<noteq> CHR ''.''" ..
      qed
      finally show ?thesis .
    qed
  qed
qed

lemma splitext_dot:
  assumes "CHR ''.'' \<notin> set ys" "CHR ''/'' \<notin> set ys"
  shows "splitext (xs @ CHR ''.'' # ys) =
           (if stem_has_name xs then (xs, CHR ''.'' # ys) else (xs @ CHR ''.'' # ys, []))"
proof -
  let ?p = "xs @ CHR ''.'' # ys"
  have dot: "rfind ?p CHR ''.'' = int (length xs)" using assms(1) by (rule rfind_last)
  have sep: "rfind ?p CHR ''/'' = rfind xs CHR ''/''"
    using assms(2) by (intro rfind_append_notin) auto
  have lt: "rfind xs CHR ''/'' < int (length xs)" using rfind_bounds by blast
  have ge: "0 \<le> rfind xs CHR ''/'' + 1" using rfind_bounds[of xs "CHR ''/''"] by linarith
  have "leading_dots_scan ?p (rfind xs CHR ''/'' + 1) (int (length xs)) =
          (\<exists>k. rfind xs CHR ''/'' + 1 \<le> k \<and> k < int (length xs) \<and> ?p ! nat k \<noteq> CHR ''.'')"
    using ge by (intro leading_dots_scan_iff) auto
  also have "\<dots> = stem_has_name xs"
    unfolding stem_has_name_def using ge
    by (intro ex_cong1) (auto simp: nth_append)
  finally show ?thesis
    using dot sep lt by (simp add: splitext_def)
qed

lemma splitext_shape:
  assumes "splitext p = (s, e)"
  shows "(e = [] \<and> s = p) \<or>
         (\<exists>ys. e = CHR ''.'' # ys \<and> CHR ''.'' \<notin> set ys \<and> CHR ''/'' \<notin> set ys \<and>
               p = s @ e \<and> stem_has_name s)"
proof (cases p "CHR ''.''" rule: rfind_cases)
  case absent
  then have "splitext p = (p, [])"
    using rfind_bounds[of p "CHR ''/''"] by (simp add: splitext_def)
  then show ?thesis using assms by simp
next
  case (present xs ys)
  show ?thesis
  proof (cases "CHR ''/'' \<in> set ys")
    case True
    then obtain as bs where ys: "ys = as @ CHR ''/'' # bs" "CHR ''/'' \<notin> set bs"
      using split_list_last by fastforce
    then have "rfind ((xs @ CHR ''.'' # as) @ CHR ''/'' # bs) CHR ''/'' =
                 int (length (xs @ CHR ''.'' # as))"
      by (intro rfind_last)
    then have "rfind p CHR ''/'' > rfind p CHR ''.''" using present ys by simp
    then have "splitext p = (p, [])" by (simp add: splitext_def)
    then show ?thesis using assms by simp
  next
    case False
    then show ?thesis using splitext_dot[OF present(2) False, of xs] present(1,2) assms
      by (auto split: if_splits)
  qed
qed

lemma splitext_concat: "splitext p = (s, e) \<Longrightarrow> s @ e = p"
  using splitext_shape by fastforce

lemma lower_mp4: "lower ''.mp4'' = ''.mp4''"
  by (simp add: lower_def lower_char_def)

lemma STREAMING_EXTENSIONS_range: "map_of STREAMING_EXTENSIONS k = Some v \<Longrightarrow> v = ''.mp4''"
  by (auto simp: STREAMING_EXTENSIONS_def split: if_splits)

lemma mp4_not_streaming: "map_of STREAMING_EXTENSIONS ''.mp4'' = None"
  by (simp add: STREAMING_EXTENSIONS_def)

text \<open>
  Claim C8. The remap of the output filename's extension is idempotent:
  \<open>smart_output_name (smart_output_name x) = smart_output_name x\<close> for every filename
  \<open>x\<close>, and \<open>smart_output_name\<close> maps \<^verbatim>\<open>video.m3u8\<close> to \<^verbatim>\<open>video.mp4\<close>.
\<close>

theorem smart_output_name_idempotent:
  "smart_output_name (smart_output_name x) = smart_output_name x \<and>
   smart_output_name ''video.m3u8'' = ''video.mp4''"
proof
  obtain s e where se: "splitext x = (s, e)" by (cases "splitext x")
  show "smart_output_name (smart_output_name x) = smart_output_name x"
  proof (cases "map_of STREAMING_EXTENSIONS (lower e)")
    case None
    have "s @ e = x" using se by (rule splitext_concat)
    then have "smart_output_name x = x"
      using se None by (simp add: smart_output_name_def dict_get_def)
    then show ?thesis by simp
  next
    case (Some v)
    then have v: "v = ''.mp4''" by (rule STREAMING_EXTENSIONS_range)
    have "e \<noteq> []" using Some by (auto simp: lower_def STREAMING_EXTENSIONS_def)
    then have nm: "stem_has_name s" using splitext_shape[OF se] by auto
    have r: "smart_output_name x = s @ ''.mp4''"
      using se Some v by (simp add: smart_output_name_def dict_get_def)
    have "splitext (s @ CHR ''.'' # ''mp4'') = (s, ''.mp4'')"
      using nm by (subst splitext_dot) auto
    then have "smart_output_name (s @ ''.mp4'') = s @ ''.mp4''"
      by (simp add: smart_output_name_def dict_get_def lower_mp4 mp4_not_streaming)
    then show ?thesis using r by simp
  qed
next
  show "smart_output_name ''video.m3u8'' = ''video.mp4''" by code_simp
qed

section \<open>The progress-formatting helpers\<close>

text \<open>
  On the numbers of the model both helpers return: the guard on a zero total comes
  before each division of \<open>progress_bar\<close>, and the test for \<^verbatim>\<open>None\<close> before the
  comparison of \<open>humanbytes\<close>.
\<close>

lemma progress_bar_returns: "\<exists>bar. progress_bar current tot len = Inr bar"
  by (auto simp: progress_bar_def truediv_def Let_def)

lemma humanbytes_Some:
  "humanbytes (Some x) =
     Inr (if x < 0 then ''Unknown'' else if x = 0 then ''0 B''
          else humanbytes_units x [''B'', ''KB'', ''MB'', ''GB'', ''TB''])"
  by (simp add: humanbytes_def py_lt_def)

lemma humanbytes_returns: "\<exists>t. humanbytes sz = Inr t"
proof (cases sz)
  case None
  then show ?thesis by (simp add: humanbytes_def)
next
  case (Some x)
  then show ?thesis by (simp add: humanbytes_Some)
qed

section \<open>The task registry\<close>

lemma live_tasks_do_upload:
  "live_tasks (do_upload user_id s) u =
     live_tasks s u @ (if u = user_id then [length (tasks s)] else [])"
  by (simp add: live_tasks_def do_upload_def Let_def)

lemma live_tasks_write_progress [simp]:
  "live_tasks (write_progress u snap s) v = live_tasks s v"
  by (simp add: live_tasks_def write_progress_def)

lemma tasks_write_progress [simp]: "tasks (write_progress u snap s) = tasks s"
  by (simp add: write_progress_def)

text \<open>
  Claim C1, as stated, fails: at most one task per requester would need a submission
  for a requester with a registered task to be rejected or to end that task. Two
  submissions of requester 7 through the web endpoint are both answered
  \<^verbatim>\<open>queued\<close>, and afterwards the tasks 0 and 1 of requester 7 are both running, neither
  ended nor asked to cancel. When both start, the four snapshots they write go to the
  key 7. When task 0 ends, its \<^verbatim>\<open>finally\<close> clause removes the registry entry of task 1,
  which keeps running.
\<close>

theorem second_submission_runs_beside_first:
  "fst (api_download (JStr ''https://cdn.example.com/a.bin'') (JNum 7) None None
          (snd (api_download (JStr ''https://cdn.example.com/a.bin'') (JNum 7) None None
                  idle_system)))
     = Inr (Response 200 ''queued'') \<and>
   live_tasks twice_submitted 7 = [0, 1] \<and>
   map fst (written_since twice_submitted
              (do_upload_logic_start 1 (do_upload_logic_start 0 twice_submitted))) =
     [7, 7, 7, 7] \<and>
   map_of (ACTIVE_TASKS (do_upload_finally 0 twice_submitted)) 7 = None \<and>
   live_tasks (do_upload_finally 0 twice_submitted) 7 = [1]"
  by code_simp

text \<open>
  Claim C1, amended. A submission for a requester id is never rejected and never ends
  or cancels a task of that requester: \<open>do_upload\<close>, which the bot flow calls and which
  the web flow calls once its status message is sent, adds one task with a fresh cancel
  flag (unset) to the tasks there are, changes none of them, and stores the new pair
  under the requester id in place of any entry that was there. The tasks of the
  requester that were running keep running, with the new one beside them.
\<close>

theorem submission_replaces_registry_entry:
  "map_of (ACTIVE_TASKS (do_upload user_id s)) user_id =
     Some (length (tasks s), length (cancel_refs s)) \<and>
   tasks (do_upload user_id s) =
     tasks s @ [(length (tasks s),
                 \<lparr>task_user = user_id, task_done = False, task_cancel_requested = False\<rparr>)] \<and>
   cancel_refs (do_upload user_id s) = cancel_refs s @ [(length (cancel_refs s), False)] \<and>
   live_tasks (do_upload user_id s) user_id = live_tasks s user_id @ [length (tasks s)] \<and>
   live_tasks (trigger_webapp_download None user_id s) user_id =
     live_tasks s user_id @ [length (tasks s)]"
proof (intro conjI)
  show "map_of (ACTIVE_TASKS (do_upload user_id s)) user_id =
          Some (length (tasks s), length (cancel_refs s))"
    by (simp add: do_upload_def Let_def update_Some_unfold)
  show "tasks (do_upload user_id s) =
     tasks s @ [(length (tasks s),
                 \<lparr>task_user = user_id, task_done = False, task_cancel_requested = False\<rparr>)]"
    by (simp add: do_upload_def Let_def)
  show "cancel_refs (do_upload user_id s) = cancel_refs s @ [(length (cancel_refs s), False)]"
    by (simp add: do_upload_def Let_def)
  show "live_tasks (do_upload user_id s) user_id = live_tasks s user_id @ [length (tasks s)]"
    by (simp add: live_tasks_do_upload)
  show "live_tasks (trigger_webapp_download None user_id s) user_id =
          live_tasks s user_id @ [length (tasks s)]"
    by (simp add: trigger_webapp_download_def live_tasks_do_upload)
qed

section \<open>Cancellation\<close>

lemma WEBAPP_PROGRESS_cancel [simp]:
  "WEBAPP_PROGRESS (task_cancel task_id (set_cancel_flag cancel_ref s)) = WEBAPP_PROGRESS s"
  by (simp add: task_cancel_def set_cancel_flag_def split: option.splits)







section \<open>The background sweep\<close>

lemma stale_ids_no_stamp:
  "\<forall>(uid, info) \<in> set store. map_of info ''_last_update'' = None \<Longrightarrow>
   stale_ids now store = Inr []"
  by (induction store) auto

lemma prune_pass_no_stamp:
  "\<forall>(uid, info) \<in> set (WEBAPP_PROGRESS s). map_of info ''_last_update'' = None \<Longrightarrow>
   prune_pass now s = s"
  by (simp add: prune_pass_def stale_ids_no_stamp)

text \<open>
  Claim C9 fails on the code. The sweep measures the idle time of an entry from its key
  \<^verbatim>\<open>_last_update\<close>, and takes the present time when the key is absent; no assignment to
  \<^verbatim>\<open>WEBAPP_PROGRESS\<close> in the repository stores that key. The entry that
  \<open>trigger_webapp_download\<close> writes for requester 7 is still there after a pass at any
  time \<open>now\<close>, however late, whether or not the coroutine went on to create its task.
\<close>

theorem sweep_keeps_unstamped_entry:
  "\<forall>now before_task.
     map_of (WEBAPP_PROGRESS (prune_pass now (trigger_webapp_download before_task 7 idle_system)))
       7 = Some (initial_snapshot ''Initializing download...'' 1 ''Unknown'' ''---'')"
proof (intro allI)
  fix now before_task
  let ?s = "trigger_webapp_download before_task 7 idle_system"
  have w: "WEBAPP_PROGRESS ?s =
             [(7, initial_snapshot ''Initializing download...'' 1 ''Unknown'' ''---'')]"
    by (simp add: trigger_webapp_download_def do_upload_def write_progress_def
        idle_system_def Let_def split: option.splits)
  have "prune_pass now ?s = ?s"
    by (rule prune_pass_no_stamp) (simp add: w initial_snapshot_def)
  then show "map_of (WEBAPP_PROGRESS (prune_pass now ?s)) 7 =
     Some (initial_snapshot ''Initializing download...'' 1 ''Unknown'' ''---'')"
    by (simp add: w)
qed

section \<open>The orchestrator's choice between fallback and error\<close>

text \<open>
  Claim C2 fails on the code for two of the four strategies. The specialized extractor
  and the secondary fallback check the size of their output (\<open>check_downloaded\<close>, and
  the test after the download in \<open>download_cobalt_body\<close>); the generic segmented download
  and the streaming remux return their output path unchecked. For a direct file whose
  daemon job completes with an empty file, and for a stream whose subprocess ends with
  status zero and an empty file, \<open>download_url\<close> returns the path and the media type, and
  the file of zero bytes stays on disk.
\<close>

theorem zero_byte_output_returned:
  "fst (download_url empty_body_env empty_body_url ''empty.bin'' 7 idle_system) =
     Return (''/app/DOWNLOADS/empty.bin'', ''application/octet-stream'') \<and>
   files (snd (download_url empty_body_env empty_body_url ''empty.bin'' 7 idle_system)) =
     [(''/app/DOWNLOADS/empty.bin'', 0)] \<and>
   fst (download_url stream_env stream_url ''clip.m3u8'' 7 idle_system) =
     Return (''/app/DOWNLOADS/clip.mp4'', ''video/mp4'') \<and>
   files (snd (download_url stream_env stream_url ''clip.m3u8'' 7 idle_system)) =
     [(''/app/DOWNLOADS/clip.mp4'', 0)]"
  by code_simp

text \<open>
  Claim C5. For a URL classified for the specialized extractor whose domain is not
  eligible for the secondary fallback, a failure of the extractor makes \<open>download_url\<close>
  raise at once: the result is the extractor's error (as a \<open>ValueError\<close> with the same
  message, or the cancellation itself), the final state is the one the extractor left,
  and the generic path was not entered (no probe and no remux were added to the trace
  of calls).
\<close>

theorem extractor_failure_without_fallback:
  assumes "is_ytdlp_url E url" and "\<not> is_cobalt_url E url"
    and "download_ytdlp E url (smart_output_name filename) user_id s = (Raise err, s1)"
  shows "download_url E url filename user_id s =
           (Raise (if is_Exception err then ValueError (exn_str err) else err), s1) \<and>
         generic_calls s1 = generic_calls s"
  using assms generic_calls_download_ytdlp[OF assms(3)]
  by (simp add: download_url_def ytdlp_failed_def)

lemma vimeo_classified:
  "is_ytdlp_url vimeo_env vimeo_url" "\<not> is_cobalt_url vimeo_env vimeo_url"
  by code_simp+

theorem extractor_failure_without_fallback_witness:
  "is_ytdlp_url vimeo_env vimeo_url \<and> \<not> is_cobalt_url vimeo_env vimeo_url \<and>
   fst (download_ytdlp vimeo_env vimeo_url (smart_output_name ''clip'') 7 idle_system) =
     Raise (OtherError ''ERROR: Unable to download webpage'') \<and>
   fst (download_url vimeo_env vimeo_url ''clip'' 7 idle_system) =
     Raise (ValueError ''ERROR: Unable to download webpage'') \<and>
   generic_calls (snd (download_url vimeo_env vimeo_url ''clip'' 7 idle_system)) = []"
proof -
  obtain s1 where run:
    "download_ytdlp vimeo_env vimeo_url (smart_output_name ''clip'') 7 idle_system =
      (Raise (OtherError ''ERROR: Unable to download webpage''), s1)"
    by (simp add: download_ytdlp_def run_async_def vimeo_env_def quiet_env_def Let_def)
  have g: "generic_calls idle_system = []" by (simp add: generic_calls_def idle_system_def)
  show ?thesis
    using extractor_failure_without_fallback[OF vimeo_classified run] vimeo_classified run g
    by simp
qed

lemma download_cobalt_calls:
  "download_cobalt E url filename u s = (r, s') \<Longrightarrow>
   \<exists>cs. calls s' = calls s @ EnterCobalt url # cs"
  by (auto simp: download_cobalt_def split: prod.splits outcome.splits if_splits
      dest!: calls_download_cobalt_body)

text \<open>
  Claim C6. For a URL classified for the specialized extractor whose domain is eligible
  for the secondary fallback, a failure of the extractor (an exception that is not a
  cancellation) is followed by the fallback: \<open>download_url\<close> then runs \<open>download_cobalt\<close>
  from the state the extractor left, its result is decided by that run alone, its final
  state is the final state of that run, and the trace of calls is the extractor's trace
  followed by the entry into the fallback. If the fallback fails too, \<open>download_url\<close>
  raises one \<open>ValueError\<close> whose message contains the message of the extractor's error and
  the message of the fallback's error.
\<close>

theorem extractor_failure_with_fallback:
  assumes "is_ytdlp_url E url" and "is_cobalt_url E url"
    and "download_ytdlp E url (smart_output_name filename) user_id s = (Raise e1, s1)"
    and "is_Exception e1"
  shows "download_url E url filename user_id s =
           (case download_cobalt E url (smart_output_name filename) user_id s1 of
              (Raise e2, s2) \<Rightarrow>
                if is_Exception e2
                then (Raise (ValueError (''Error 1: '' @ exn_str e1 @ [CHR 0x0A, CHR 0x0A] @
                                         ''Error 2: '' @ exn_str e2)), s2)
                else (Raise e2, s2)
            | (Return r, s2) \<Rightarrow> (Return r, s2)
            | (Hang, s2) \<Rightarrow> (Hang, s2)) \<and>
         snd (download_url E url filename user_id s) =
           snd (download_cobalt E url (smart_output_name filename) user_id s1) \<and>
         (\<exists>cs. calls (snd (download_url E url filename user_id s)) =
                 calls s1 @ EnterCobalt url # cs) \<and>
         (\<forall>e2 s2. download_cobalt E url (smart_output_name filename) user_id s1 = (Raise e2, s2) \<and>
                   is_Exception e2 \<longrightarrow>
            (\<exists>msg. download_url E url filename user_id s = (Raise (ValueError msg), s2) \<and>
                   sublist (exn_str e1) msg \<and> sublist (exn_str e2) msg))"
proof (intro conjI allI impI)
  obtain r s2 where c: "download_cobalt E url (smart_output_name filename) user_id s1 = (r, s2)"
    by (cases "download_cobalt E url (smart_output_name filename) user_id s1")
  show d: "download_url E url filename user_id s =
           (case download_cobalt E url (smart_output_name filename) user_id s1 of
              (Raise e2, s2) \<Rightarrow>
                if is_Exception e2
                then (Raise (ValueError (''Error 1: '' @ exn_str e1 @ [CHR 0x0A, CHR 0x0A] @
                                         ''Error 2: '' @ exn_str e2)), s2)
                else (Raise e2, s2)
            | (Return r, s2) \<Rightarrow> (Return r, s2)
            | (Hang, s2) \<Rightarrow> (Hang, s2))"
    using assms c by (simp add: download_url_def ytdlp_failed_def split: outcome.splits)
  show st: "snd (download_url E url filename user_id s) =
           snd (download_cobalt E url (smart_output_name filename) user_id s1)"
    using d c by (simp split: outcome.splits)
  show "\<exists>cs. calls (snd (download_url E url filename user_id s)) =
              calls s1 @ EnterCobalt url # cs"
    using st c download_cobalt_calls[OF c] by simp
next
  fix e2 s2
  assume a: "download_cobalt E url (smart_output_name filename) user_id s1 = (Raise e2, s2) \<and>
             is_Exception e2"
  define msg where
    "msg = ''Error 1: '' @ exn_str e1 @ [CHR 0x0A, CHR 0x0A] @ ''Error 2: '' @ exn_str e2"
  have "download_url E url filename user_id s = (Raise (ValueError msg), s2)"
    using assms a unfolding msg_def by (simp add: download_url_def ytdlp_failed_def)
  moreover have "sublist (exn_str e1) msg"
    unfolding msg_def sublist_def by blast
  moreover have
    "msg = (''Error 1: '' @ exn_str e1 @ [CHR 0x0A, CHR 0x0A] @ ''Error 2: '') @ exn_str e2 @ []"
    unfolding msg_def by simp
  then have "sublist (exn_str e2) msg"
    unfolding sublist_def by blast
  ultimately show "\<exists>msg. download_url E url filename user_id s = (Raise (ValueError msg), s2) \<and>
                   sublist (exn_str e1) msg \<and> sublist (exn_str e2) msg"
    by blast
qed

lemma reddit_classified:
  "is_ytdlp_url reddit_env reddit_url" "is_cobalt_url reddit_env reddit_url"
  by code_simp+

lemma str_of_int_500: "str_of_int 500 = ''500''"
  by code_simp

theorem extractor_failure_with_fallback_witness:
  "is_ytdlp_url reddit_env reddit_url \<and> is_cobalt_url reddit_env reddit_url \<and>
   fst (download_ytdlp reddit_env reddit_url (smart_output_name ''clip'') 7 idle_system) =
     Raise (OtherError ''ERROR: Unable to download webpage'') \<and>
   (\<exists>cs. calls (snd (download_url reddit_env reddit_url ''clip'' 7 idle_system)) =
           [EnterYtdlp reddit_url] @ EnterCobalt reddit_url # cs) \<and>
   (\<exists>msg. fst (download_url reddit_env reddit_url ''clip'' 7 idle_system) =
             Raise (ValueError msg) \<and>
          sublist ''ERROR: Unable to download webpage'' msg \<and>
          sublist ''Download failed: Download server returned 500: internal error'' msg)"
proof -
  obtain s1 where run:
    "download_ytdlp reddit_env reddit_url (smart_output_name ''clip'') 7 idle_system =
      (Raise (OtherError ''ERROR: Unable to download webpage''), s1)"
    and tr: "calls s1 = [EnterYtdlp reddit_url]"
    by (simp add: download_ytdlp_def run_async_def reddit_env_def quiet_env_def Let_def
        idle_system_def)
  obtain s2 where fb:
    "download_cobalt reddit_env reddit_url (smart_output_name ''clip'') 7 s1 =
      (Raise (ValueError ''Download failed: Download server returned 500: internal error''), s2)"
    by (simp add: download_cobalt_def download_cobalt_body_def cobalt_resolve_def bind_exn_def
        reddit_env_def quiet_env_def Let_def str_of_int_500)
  have exc: "is_Exception (OtherError ''ERROR: Unable to download webpage'')" by simp
  show ?thesis
    using extractor_failure_with_fallback[OF reddit_classified run exc] reddit_classified run fb tr
    by fastforce
qed

text \<open>
  Claim C7. For a URL that is neither classified for the specialized extractor nor
  eligible for the secondary fallback, and that the probe does not show to be a stream,
  a probed \<^verbatim>\<open>Content-Length\<close> above \<open>MAX_FILE_SIZE\<close> (2,097,152,000 bytes) makes
  \<open>download_url\<close> raise a \<open>ValueError\<close> that starts with \<^verbatim>\<open>File too large\<close>. Nothing was
  downloaded: the files are those of the start, and the probe is the only call that
  was added to the trace.
\<close>

theorem oversized_direct_file_rejected:
  assumes "\<not> is_ytdlp_url E url" and "\<not> is_cobalt_url E url"
    and "http_head E url = Inr head"
    and "needs_ffmpeg_download E url (probed_mime head) = Inr False"
    and "MAX_FILE_SIZE < probed_total head"
  shows "\<exists>msg s'. download_url E url filename user_id s = (Raise (ValueError msg), s') \<and>
           prefix ''File too large: '' msg \<and>
           files s' = files s \<and>
           calls s' = calls s @ [HeadProbe url]"
proof -
  have pos: "probed_total head \<noteq> 0" "\<not> probed_total head < 0"
    using assms(5) by (simp_all add: MAX_FILE_SIZE_def)
  obtain a where a: "humanbytes (Some (of_int (probed_total head))) = Inr a"
    using humanbytes_returns by blast
  obtain b where b: "humanbytes (Some (of_int MAX_FILE_SIZE)) = Inr b"
    using humanbytes_returns by blast
  show ?thesis
    using assms pos a b
    by (simp add: download_url_def download_generic_def Let_def)
qed

lemma scenario_C_classified:
  "\<not> is_ytdlp_url scenario_C_env scenario_C_url" "\<not> is_cobalt_url scenario_C_env scenario_C_url"
  by code_simp+

lemma scenario_C_probe:
  "http_head scenario_C_env scenario_C_url =
     Inr \<lparr>hr_content_type = Some ''application/zip'', hr_content_length = Some ''5000000000'',
          hr_cd_filename = None\<rparr>"
  by (simp add: scenario_C_env_def quiet_env_def)

lemma scenario_C_direct:
  "needs_ffmpeg_download scenario_C_env scenario_C_url
     (probed_mime \<lparr>hr_content_type = Some ''application/zip'',
                   hr_content_length = Some ''5000000000'', hr_cd_filename = None\<rparr>) = Inr False"
  by code_simp

lemma scenario_C_size:
  "probed_total \<lparr>hr_content_type = Some ''application/zip'',
                 hr_content_length = Some ''5000000000'', hr_cd_filename = None\<rparr> = 5000000000"
  by code_simp

theorem oversized_direct_file_rejected_witness:
  "\<not> is_ytdlp_url scenario_C_env scenario_C_url \<and>
   \<not> is_cobalt_url scenario_C_env scenario_C_url \<and>
   MAX_FILE_SIZE < 5000000000 \<and>
   (\<exists>msg s'. download_url scenario_C_env scenario_C_url ''file.zip'' 7 idle_system =
                (Raise (ValueError msg), s') \<and>
             prefix ''File too large: '' msg \<and> files s' = [] \<and>
             calls s' = [HeadProbe scenario_C_url])"
proof -
  have big: "MAX_FILE_SIZE < 5000000000" by (simp add: MAX_FILE_SIZE_def)
  have start: "files idle_system = []" "calls idle_system = []"
    by (simp_all add: idle_system_def)
  show ?thesis
    using oversized_direct_file_rejected[OF scenario_C_classified scenario_C_probe
            scenario_C_direct, of "''file.zip''" 7 idle_system]
          scenario_C_classified big start
    by (simp add: scenario_C_size)
qed

section \<open>The percentages written during acquisition\<close>

lemma progress_log_write_progress [simp]:
  "progress_log (write_progress u snap s) = progress_log s @ [(u, snap)]"
  by (simp add: write_progress_def)

lemma progress_log_log_call [simp]: "progress_log (log_call c s) = progress_log s"
  by (simp add: log_call_def)

lemma progress_log_remove_quietly [simp]: "progress_log (remove_quietly p s) = progress_log s"
  by (simp add: remove_quietly_def)

lemma progress_log_put_file [simp]: "progress_log (put_file p n s) = progress_log s"
  by (simp add: put_file_def split: option.splits)

lemma percentage_of_aria2c_snapshot [simp]:
  "percentage_of (aria2c_snapshot p) = Some (aria2c_display_pct (ap_progress p))"
  by (simp add: percentage_of_def aria2c_snapshot_def)

lemma percentage_of_hls_snapshot [simp]:
  "percentage_of (hls_snapshot e) = Some (round1 (hls_pulsing_pct e))"
  by (simp add: percentage_of_def hls_snapshot_def)

lemma hook_display_percent_bounds: "1 \<le> hook_display_percent p \<and> hook_display_percent p < 100"
  by (auto simp: hook_display_percent_def Let_def max_def)

lemma py_int_mono:
  assumes "q \<le> q'" shows "py_int q \<le> py_int q'"
proof (cases "0 \<le> q")
  case True
  then have "0 \<le> q'" using assms by simp
  then show ?thesis using True assms by (simp add: py_int_def floor_mono)
next
  case neg: False
  show ?thesis
  proof (cases "0 \<le> q'")
    case True
    have a: "\<lceil>q\<rceil> \<le> 0" using neg by (simp add: ceiling_le_zero)
    have b: "0 \<le> \<lfloor>q'\<rfloor>" using True by simp
    have "py_int q = \<lceil>q\<rceil>" "py_int q' = \<lfloor>q'\<rfloor>"
      using neg True by (simp_all add: py_int_def)
    then show ?thesis using a b by linarith
  next
    case False
    then show ?thesis using neg assms by (simp add: py_int_def ceiling_mono)
  qed
qed

lemma aria2c_display_pct_less: "aria2c_display_pct q < 100"
  by (simp add: aria2c_display_pct_def Let_def)

lemma aria2c_display_pct_mono:
  assumes "q \<le> q'" shows "aria2c_display_pct q \<le> aria2c_display_pct q'"
proof -
  have m: "py_int q \<le> py_int q'" using assms by (rule py_int_mono)
  show ?thesis
  proof (cases "100 \<le> py_int q")
    case True
    then show ?thesis using m by (simp add: aria2c_display_pct_def Let_def)
  next
    case False
    then have "py_int q \<le> 99" by simp
    then have "(of_int (py_int q) :: rat) \<le> 99" by linarith
    then show ?thesis using m False by (auto simp: aria2c_display_pct_def Let_def)
  qed
qed

lemma round_half_even_le:
  assumes "x \<le> of_int n" shows "round_half_even x \<le> n"
proof -
  have f: "\<lfloor>x\<rfloor> \<le> n" using assms by (simp add: floor_le_iff)
  show ?thesis
  proof (cases "\<lfloor>x\<rfloor> = n")
    case True
    then have "of_int n \<le> x" by (metis of_int_floor_le)
    then have "x = of_int n" using assms by simp
    then show ?thesis by (simp add: round_half_even_def)
  next
    case False
    then have "\<lfloor>x\<rfloor> + 1 \<le> n" using f by simp
    then show ?thesis by (auto simp: round_half_even_def Let_def)
  qed
qed

lemma round_half_even_nonneg: "0 \<le> x \<Longrightarrow> 0 \<le> round_half_even x"
  by (auto simp: round_half_even_def Let_def)

lemma py_mod_nonneg: "0 \<le> py_mod x 10"
proof -
  have "of_int \<lfloor>x / 10\<rfloor> \<le> x / 10" by (rule of_int_floor_le)
  then show ?thesis by (simp add: py_mod_def)
qed

lemma hls_percentage_bounds:
  "0 \<le> round1 (hls_pulsing_pct e) \<and> round1 (hls_pulsing_pct e) \<le> 999 / 10"
proof
  have "0 \<le> hls_pulsing_pct e" using py_mod_nonneg[of e] by (simp add: hls_pulsing_pct_def)
  then have "0 \<le> round_half_even (hls_pulsing_pct e * 10)"
    by (intro round_half_even_nonneg) simp
  then show "0 \<le> round1 (hls_pulsing_pct e)" by (simp add: round1_def)
next
  have "hls_pulsing_pct e \<le> 999 / 10" by (simp add: hls_pulsing_pct_def)
  then have "hls_pulsing_pct e * 10 \<le> of_int 999" by simp
  then have "round_half_even (hls_pulsing_pct e * 10) \<le> 999" by (rule round_half_even_le)
  then have "(of_int (round_half_even (hls_pulsing_pct e * 10)) :: rat) \<le> 999" by linarith
  then show "round1 (hls_pulsing_pct e) \<le> 999 / 10" by (simp add: round1_def)
qed

text \<open>What each loop adds to the log of snapshots.\<close>

lemma aria2c_loop_log:
  "progress_log (snd (aria2c_loop u out fin ps s)) =
     progress_log s @ map (\<lambda>p. (u, aria2c_snapshot p)) (takeWhile aria2_running ps)"
proof (induction ps arbitrary: s)
  case Nil
  then show ?case by simp
next
  case (Cons p ps)
  obtain bar where bar: "progress_bar (py_int (ap_progress p)) 100 12 = Inr bar"
    using progress_bar_returns by blast
  show ?case
    using Cons bar by (simp add: aria2_running_def split: option.splits)
qed

lemma aria2c_loop_written:
  "map (percentage_of \<circ> snd) (written_since s (snd (aria2c_loop u out fin ps s))) =
     map Some (aria2c_percentages ps)"
  by (simp add: written_since_def aria2c_loop_log aria2c_percentages_def comp_def)

lemma aria2c_percentages_sorted:
  assumes "sorted (map ap_progress ps)"
  shows "sorted (aria2c_percentages ps)"
proof -
  have "sorted (map ap_progress (takeWhile aria2_running ps))"
    using assms
    by (metis sorted_wrt_take take_map takeWhile_eq_take)
  then have "sorted_wrt (\<lambda>a b. ap_progress a \<le> ap_progress b) (takeWhile aria2_running ps)"
    by (simp add: sorted_wrt_map)
  then have "sorted_wrt (\<lambda>a b. aria2c_display_pct (ap_progress a) \<le>
                               aria2c_display_pct (ap_progress b))
               (takeWhile aria2_running ps)"
    by (rule sorted_wrt_mono_rel[rotated]) (simp add: aria2c_display_pct_mono)
  then show ?thesis
    by (simp add: aria2c_percentages_def sorted_wrt_map)
qed

lemma hls_loop_log:
  "\<exists>new. progress_log (snd (hls_loop u start last_edit ps s)) = progress_log s @ new \<and>
         (\<forall>(v, snap) \<in> set new. \<exists>e. snap = hls_snapshot e)"
proof (induction ps arbitrary: s last_edit)
  case Nil
  then show ?case by simp
next
  case (Cons p ps)
  show ?case
  proof (cases "hp_error p = None \<and> \<not> hp_finished p \<and> \<not> hp_cancel p")
    case False
    then show ?thesis by (auto split: option.splits)
  next
    case go: True
    show ?thesis
    proof (cases "PROGRESS_UPDATE_DELAY \<le> hp_now p - last_edit")
      case True
      let ?s1 = "write_progress u (hls_snapshot (hp_now p - start)) s"
      obtain new where new:
        "progress_log (snd (hls_loop u start (hp_now p) ps ?s1)) = progress_log ?s1 @ new"
        "\<forall>(v, snap) \<in> set new. \<exists>e. snap = hls_snapshot e"
        using Cons.IH[of "hp_now p" ?s1] by blast
      have "progress_log (snd (hls_loop u start last_edit (p # ps) s)) =
              progress_log s @ ((u, hls_snapshot (hp_now p - start)) # new)"
        using go True new(1) by (simp add: Let_def)
      moreover have "\<forall>(v, snap) \<in> set ((u, hls_snapshot (hp_now p - start)) # new).
                       \<exists>e. snap = hls_snapshot e"
        using new(2) by auto
      ultimately show ?thesis by blast
    next
      case False
      then show ?thesis using go Cons.IH[of last_edit s] by (simp add: Let_def)
    qed
  qed
qed

lemma hls_loop_written:
  "\<forall>(v, snap) \<in> set (written_since s (snd (hls_loop u start last_edit ps s))).
     \<exists>q. percentage_of snap = Some q \<and> 0 \<le> q \<and> q \<le> 999 / 10"
proof -
  obtain new where new:
    "progress_log (snd (hls_loop u start last_edit ps s)) = progress_log s @ new"
    "\<forall>(v, snap) \<in> set new. \<exists>e. snap = hls_snapshot e"
    using hls_loop_log by blast
  have "written_since s (snd (hls_loop u start last_edit ps s)) = new"
    using new(1) by (simp add: written_since_def)
  then show ?thesis
    using new(2) hls_percentage_bounds by fastforce
qed

lemma progress_hook_written:
  "progress_hook u d s = Inr s' \<Longrightarrow>
   \<exists>snap q. written_since s s' = [(u, snap)] \<and>
            percentage_of snap = Some q \<and> 1 \<le> q \<and> q < 100"
  using hook_display_percent_bounds
  by (auto simp: progress_hook_def bind_exn_def Let_def percentage_of_def written_since_def
      split: if_splits sum.splits)

text \<open>
  Claim C3, as stated, fails for the streaming remux. With polls at 9 and 11 seconds
  after the start, the remux loop writes, in one phase of one request, the percentage
  90 and then the percentage 10.
\<close>

theorem streaming_percentage_drops:
  "logged_percentages
     (snd (download_hls stream_env stream_url ''/app/DOWNLOADS/clip.mp4'' 7 idle_system)) =
     [(Some WEAVING, Some 90), (Some WEAVING, Some 10)]"
  by code_simp

text \<open>
  Claim C3, amended. No acquisition strategy writes a percentage of 100 or more: the
  polling loop of the segmented downloader writes exactly the capped percentages of the
  statuses it sees before completion, each below 100, and they are non-decreasing when
  the progress that the daemon reports is non-decreasing; every percentage written by
  the remux loop lies between 0 and 99.9 (it is a sawtooth of the elapsed time, by
  design not monotone); a call of the extractor's hook that does not raise writes one
  snapshot, with a percentage from 1 to below 100.
\<close>

theorem written_percentages_below_100:
  "map (percentage_of \<circ> snd) (written_since s (snd (aria2c_loop u out fin polls s))) =
     map Some (aria2c_percentages polls) \<and>
   (\<forall>q \<in> set (aria2c_percentages polls). q < 100) \<and>
   (sorted (map ap_progress polls) \<longrightarrow> sorted (aria2c_percentages polls)) \<and>
   (\<forall>(v, snap) \<in> set (written_since s (snd (hls_loop u start last_edit hpolls s))).
      \<exists>q. percentage_of snap = Some q \<and> 0 \<le> q \<and> q \<le> 999 / 10) \<and>
   (\<forall>s'. progress_hook u d s = Inr s' \<longrightarrow>
      (\<exists>snap q. written_since s s' = [(u, snap)] \<and>
                percentage_of snap = Some q \<and> 1 \<le> q \<and> q < 100))"
proof (intro conjI)
  show "map (percentage_of \<circ> snd) (written_since s (snd (aria2c_loop u out fin polls s))) =
          map Some (aria2c_percentages polls)"
    by (rule aria2c_loop_written)
  show "\<forall>q \<in> set (aria2c_percentages polls). q < 100"
    by (auto simp: aria2c_percentages_def aria2c_display_pct_less)
  show "sorted (map ap_progress polls) \<longrightarrow> sorted (aria2c_percentages polls)"
    by (simp add: aria2c_percentages_sorted)
  show "\<forall>(v, snap) \<in> set (written_since s (snd (hls_loop u start last_edit hpolls s))).
          \<exists>q. percentage_of snap = Some q \<and> 0 \<le> q \<and> q \<le> 999 / 10"
    by (rule hls_loop_written)
  show "\<forall>s'. progress_hook u d s = Inr s' \<longrightarrow>
          (\<exists>snap q. written_since s s' = [(u, snap)] \<and>
                    percentage_of snap = Some q \<and> 1 \<le> q \<and> q < 100)"
    using progress_hook_written by blast
qed

lemma rising_polls_sorted:
  "sorted (map ap_progress [running_at 10, running_at 100, completed_poll])"
  by (simp add: running_at_def completed_poll_def)

lemma rising_polls_percentages:
  "aria2c_percentages [running_at 10, running_at 100, completed_poll] = [10, 995 / 10]"
  by (simp add: aria2c_percentages_def aria2_running_def running_at_def completed_poll_def
      aria2c_display_pct_def py_int_def)

lemma hook_at_end_returns: "\<exists>s'. progress_hook 7 hook_at_end idle_system = Inr s'"
proof -
  obtain a b c where
    "humanbytes (Some 1000) = Inr a" "humanbytes (Some 2048) = Inr c"
    using humanbytes_returns by blast
  then show ?thesis
    by (simp add: progress_hook_def hook_at_end_def hook_total_def py_or_def truthy_def
        truediv_def bind_exn_def Let_def)
qed

theorem written_percentages_below_100_witness:
  "sorted (map ap_progress [running_at 10, running_at 100, completed_poll]) \<and>
   aria2c_percentages [running_at 10, running_at 100, completed_poll] = [10, 995 / 10] \<and>
   sorted (aria2c_percentages [running_at 10, running_at 100, completed_poll]) \<and>
   map (percentage_of \<circ> snd)
     (written_since idle_system
        (snd (aria2c_loop 7 ''/app/DOWNLOADS/a.bin'' (Some 1)
                [running_at 10, running_at 100, completed_poll] idle_system))) =
     [Some 10, Some (995 / 10)] \<and>
   (\<exists>s' snap q. progress_hook 7 hook_at_end idle_system = Inr s' \<and>
                written_since idle_system s' = [(7, snap)] \<and>
                percentage_of snap = Some q \<and> 1 \<le> q \<and> q < 100)"
proof -
  obtain s' where h: "progress_hook 7 hook_at_end idle_system = Inr s'"
    using hook_at_end_returns by blast
  show ?thesis
    using written_percentages_below_100[of idle_system 7 "''/app/DOWNLOADS/a.bin''" "Some 1"
            "[running_at 10, running_at 100, completed_poll]" 0 0 "[]" hook_at_end]
          rising_polls_sorted rising_polls_percentages h
    by auto
qed

end
